theory Spec2Isabelle
  imports Main
begin

section \<open>Python values, exceptions and the operations the plugin applies to them\<close>

text \<open>
  The failover plugin (\<^verbatim>\<open>plugins/failover_/event_linux.py\<close>) works on values it gets
  from collaborators through \<^verbatim>\<open>middleware.call_sync\<close>: \<^verbatim>\<open>None\<close>, booleans, integers,
  strings, lists, tuples, dictionaries and job objects. A dictionary is an association
  list with distinct keys; a job object is a finished job with its \<^verbatim>\<open>error\<close> and
  \<^verbatim>\<open>result\<close> attributes.
\<close>

datatype exn =
    TypeError | KeyError | IndexError | AttributeError | UnboundLocalError
  | FileNotFoundError | UnsupportedOperation
  | IgnoreFailoverEvent | ZpoolExportTimeout
  | CallError string

datatype pyval =
    PNone | PBool bool | PInt int | PStr string
  | PList "pyval list" | PTuple "pyval list"
  | PDict "(pyval \<times> pyval) list"
  | PJob pyval pyval

text \<open>Truth value of an object in a condition (\<^verbatim>\<open>if x:\<close>, \<^verbatim>\<open>x and y\<close>).\<close>

fun truthy :: "pyval \<Rightarrow> bool" where
  "truthy PNone = False"
| "truthy (PBool b) = b"
| "truthy (PInt i) = (i \<noteq> 0)"
| "truthy (PStr s) = (s \<noteq> [])"
| "truthy (PList xs) = (xs \<noteq> [])"
| "truthy (PTuple xs) = (xs \<noteq> [])"
| "truthy (PDict d) = (d \<noteq> [])"
| "truthy (PJob e r) = True"

text \<open>\<^verbatim>\<open>len(x)\<close>: defined on strings and containers, a TypeError elsewhere.\<close>

fun py_len :: "pyval \<Rightarrow> exn + nat" where
  "py_len (PStr s) = Inr (length s)"
| "py_len (PList xs) = Inr (length xs)"
| "py_len (PTuple xs) = Inr (length xs)"
| "py_len (PDict d) = Inr (length d)"
| "py_len v = Inl TypeError"

text \<open>\<^verbatim>\<open>for x in v\<close>: the elements visited, or a TypeError when \<^verbatim>\<open>v\<close> is not iterable.\<close>

fun py_iter :: "pyval \<Rightarrow> exn + pyval list" where
  "py_iter (PStr s) = Inr (map (\<lambda>c. PStr [c]) s)"
| "py_iter (PList xs) = Inr xs"
| "py_iter (PTuple xs) = Inr xs"
| "py_iter (PDict d) = Inr (map fst d)"
| "py_iter v = Inl TypeError"

text \<open>
  Dictionary keys must be hashable; \<^verbatim>\<open>True\<close> and \<^verbatim>\<open>1\<close> (and \<^verbatim>\<open>False\<close> and \<^verbatim>\<open>0\<close>) are
  the same key. \<open>key_norm\<close> maps a key to a representative of its equality class.
\<close>

fun hashable :: "pyval \<Rightarrow> bool" where
  "hashable (PList xs) = False"
| "hashable (PDict d) = False"
| "hashable (PTuple xs) = list_all hashable xs"
| "hashable v = True"

fun key_norm :: "pyval \<Rightarrow> pyval" where
  "key_norm (PBool b) = PInt (if b then 1 else 0)"
| "key_norm (PTuple xs) = PTuple (map key_norm xs)"
| "key_norm v = v"

fun dict_find :: "(pyval \<times> pyval) list \<Rightarrow> pyval \<Rightarrow> pyval option" where
  "dict_find [] k = None"
| "dict_find ((k', v) # d) k = (if key_norm k' = key_norm k then Some v else dict_find d k)"

fun dict_set :: "(pyval \<times> pyval) list \<Rightarrow> pyval \<Rightarrow> pyval \<Rightarrow> (pyval \<times> pyval) list" where
  "dict_set [] k v = [(k, v)]"
| "dict_set ((k', v') # d) k v =
     (if key_norm k' = key_norm k then (k', v) # d else (k', v') # dict_set d k v)"

text \<open>
  \<^verbatim>\<open>xs[i]\<close> for an integer \<^verbatim>\<open>i\<close>: positions \<open>0\<close> up to \<open>len - 1\<close>, or \<open>-len\<close> up to
  \<open>-1\<close> read from the back; anything else is an IndexError.
\<close>

definition seq_index :: "'a list \<Rightarrow> int \<Rightarrow> exn + 'a" where
  "seq_index xs i =
     (if 0 \<le> i \<and> i < int (length xs) then Inr (xs ! nat i)
      else if i < 0 \<and> - int (length xs) \<le> i then Inr (xs ! nat (int (length xs) + i))
      else Inl IndexError)"

text \<open>\<^verbatim>\<open>v[k]\<close>.\<close>

fun getitem :: "pyval \<Rightarrow> pyval \<Rightarrow> exn + pyval" where
  "getitem (PDict d) k =
     (if hashable k then (case dict_find d k of None \<Rightarrow> Inl KeyError | Some v \<Rightarrow> Inr v)
      else Inl TypeError)"
| "getitem (PList xs) (PInt i) = seq_index xs i"
| "getitem (PList xs) (PBool b) = seq_index xs (if b then 1 else 0)"
| "getitem (PTuple xs) (PInt i) = seq_index xs i"
| "getitem (PTuple xs) (PBool b) = seq_index xs (if b then 1 else 0)"
| "getitem (PStr s) (PInt i) = map_sum id (\<lambda>c. PStr [c]) (seq_index s i)"
| "getitem (PStr s) (PBool b) = map_sum id (\<lambda>c. PStr [c]) (seq_index s (if b then 1 else 0))"
| "getitem v k = Inl TypeError"

text \<open>\<^verbatim>\<open>v[k] = x\<close> on a dictionary (the only kind of object the plugin assigns into).\<close>

fun setitem :: "pyval \<Rightarrow> pyval \<Rightarrow> pyval \<Rightarrow> exn + pyval" where
  "setitem (PDict d) k x = (if hashable k then Inr (PDict (dict_set d k x)) else Inl TypeError)"
| "setitem v k x = Inl TypeError"

text \<open>
  \<^verbatim>\<open>needle in haystack\<close> with a string on the right is a substring test, and a TypeError
  when the left operand is not a string.
\<close>

fun starts_with :: "string \<Rightarrow> string \<Rightarrow> bool" where
  "starts_with [] s = True"
| "starts_with (c # p) [] = False"
| "starts_with (c # p) (d # s) = (c = d \<and> starts_with p s)"

fun str_contains :: "string \<Rightarrow> string \<Rightarrow> bool" where
  "str_contains p [] = (p = [])"
| "str_contains p (d # s) = (starts_with p (d # s) \<or> str_contains p s)"

fun in_str :: "pyval \<Rightarrow> string \<Rightarrow> exn + bool" where
  "in_str (PStr p) s = Inr (str_contains p s)"
| "in_str v s = Inl TypeError"

text \<open>
  Calling an object. None of the values above is callable: \<^verbatim>\<open>('a', 'b')('c', 'd')\<close>
  raises \<^verbatim>\<open>TypeError: 'tuple' object is not callable\<close>.
\<close>

fun py_call :: "pyval \<Rightarrow> pyval list \<Rightarrow> exn + pyval" where
  "py_call f xs = Inl TypeError"

text \<open>\<^verbatim>\<open>','.join(v)\<close>: every element visited must be a string.\<close>

fun is_str :: "pyval \<Rightarrow> bool" where
  "is_str (PStr s) = True"
| "is_str v = False"

definition py_join :: "pyval \<Rightarrow> exn + unit" where
  "py_join v = (case py_iter v of Inl e \<Rightarrow> Inl e
                | Inr xs \<Rightarrow> if list_all is_str xs then Inr () else Inl TypeError)"

text \<open>Attributes of a job object; any other object has no such attribute.\<close>

fun job_error :: "pyval \<Rightarrow> exn + pyval" where
  "job_error (PJob e r) = Inr e"
| "job_error v = Inl AttributeError"

fun job_result :: "pyval \<Rightarrow> exn + pyval" where
  "job_result (PJob e r) = Inr r"
| "job_result v = Inl AttributeError"


section \<open>The service state and the collaborators\<close>

text \<open>
  A collaborator call is \<^verbatim>\<open>middleware.call_sync(method, *args, **kwargs)\<close>. The
  environment answers a call with a value or raises; its answer may depend on the calls
  made before. Three more things are left to the environment: the text of an exception
  (\<^verbatim>\<open>str(e)\<close>); the value \<^verbatim>\<open>wait_sync()\<close> returns for a finished job (the plugin
  discards it at line 418 and reads \<^verbatim>\<open>.error\<close> from it at lines 273 and 286); and the
  point at which the timer armed by \<^verbatim>\<open>signal.alarm\<close> in \<^verbatim>\<open>vrrp_backup\<close> expires.

  The handler of that timer, \<^verbatim>\<open>_zpool_export_sig_alarm\<close>, raises \<^verbatim>\<open>ZpoolExportTimeout\<close> in
  whatever the thread is executing at that moment: inside \<^verbatim>\<open>call_sync\<close> of the export
  of the n-th volume, inside \<^verbatim>\<open>time.sleep(5)\<close>, or not within the export step at all.
\<close>

datatype call = Call (meth: string) (args: "pyval list") (kwargs: "(string \<times> pyval) list")

datatype alarm_point = AlarmNotInExport | AlarmInExportCall nat | AlarmInSleep

record env =
  call_sync :: "call list \<Rightarrow> call \<Rightarrow> exn + pyval"
  exn_str :: "exn \<Rightarrow> string"
  wait_sync_value :: "pyval \<Rightarrow> pyval"
  sigalrm :: alarm_point

text \<open>
  The state the plugin reads and writes: the calls made so far, the class attribute
  \<^verbatim>\<open>failover_successful\<close>, the progress descriptions and results set on the running
  job, and the files (path to modification time) with the writes made to them.
  \<open>alarms\<close> counts how often the handler of SIGALRM has run.
\<close>

record state =
  trace :: "call list"
  failover_successful :: bool
  progress :: "string list"
  results :: "pyval list"
  files :: "(string \<times> int) list"
  written :: "(string \<times> string) list"
  clock :: int
  alarms :: nat

text \<open>\<^verbatim>\<open>failover_successful = False\<close> in the class body.\<close>

definition init_state :: state where
  "init_state = \<lparr>trace = [], failover_successful = False, progress = [], results = [],
                 files = [], written = [], clock = 0, alarms = 0\<rparr>"

text \<open>A computation either raises or returns, and leaves a state.\<close>

type_synonym 'a comp = "state \<Rightarrow> (exn + 'a) \<times> state"

definition ret :: "'a \<Rightarrow> 'a comp" where
  "ret x s = (Inr x, s)"

definition raise :: "exn \<Rightarrow> 'a comp" where
  "raise e s = (Inl e, s)"

definition ebind :: "exn + 'a \<Rightarrow> ('a \<Rightarrow> exn + 'b) \<Rightarrow> exn + 'b" where
  "ebind r f = (case r of Inl e \<Rightarrow> Inl e | Inr x \<Rightarrow> f x)"

definition lift :: "exn + 'a \<Rightarrow> 'a comp" where
  "lift r s = (r, s)"

definition andthen :: "'a comp \<Rightarrow> ('a \<Rightarrow> 'b comp) \<Rightarrow> 'b comp" where
  "andthen m f s = (case m s of (Inl e, s') \<Rightarrow> (Inl e, s') | (Inr x, s') \<Rightarrow> f x s')"

definition next_do :: "unit comp \<Rightarrow> 'b comp \<Rightarrow> 'b comp" where
  "next_do m k = andthen m (\<lambda>_. k)"

text \<open>
  \<^verbatim>\<open>run_call\<close> (lines 91-95): the call is made; any \<^verbatim>\<open>Exception\<close> it raises is logged
  and the function falls off its end, returning \<^verbatim>\<open>None\<close>.
\<close>

definition run_call :: "env \<Rightarrow> call \<Rightarrow> pyval comp" where
  "run_call mw c s =
     (case call_sync mw (trace s) c of
        Inl e \<Rightarrow> (Inr PNone, s\<lparr>trace := trace s @ [c]\<rparr>)
      | Inr v \<Rightarrow> (Inr v, s\<lparr>trace := trace s @ [c]\<rparr>))"

definition run_call_unit :: "env \<Rightarrow> call \<Rightarrow> unit comp" where
  "run_call_unit mw c = andthen (run_call mw c) (\<lambda>_. ret ())"

text \<open>A loop over a list: the body runs for each element in turn and stops at a raise.\<close>

fun for_each :: "'a list \<Rightarrow> ('a \<Rightarrow> unit comp) \<Rightarrow> unit comp" where
  "for_each [] body = ret ()"
| "for_each (x # xs) body = next_do (body x) (for_each xs body)"


section \<open>The validator\<close>

text \<open>
  \<^verbatim>\<open>validate\<close> (lines 155-203). The loop over the running jobs is \<open>validate_jobs\<close>:
  a running \<^verbatim>\<open>vrrp_master\<close> job ignores a MASTER or forcetakeover event, a running
  \<^verbatim>\<open>vrrp_backup\<close> job ignores a BACKUP event.
\<close>

fun validate_jobs :: "pyval list \<Rightarrow> string \<Rightarrow> exn + unit" where
  "validate_jobs [] event = Inr ()"
| "validate_jobs (i # js) event =
     (case getitem i (PStr ''method'') of Inl e \<Rightarrow> Inl e
      | Inr m \<Rightarrow>
          if m = PStr ''failover.events.vrrp_master'' \<and> event \<in> {''MASTER'', ''forcetakeover''}
          then Inl IgnoreFailoverEvent
          else (case getitem i (PStr ''method'') of Inl e \<Rightarrow> Inl e
                | Inr m' \<Rightarrow>
                    if m' = PStr ''failover.events.vrrp_backup'' \<and> event = ''BACKUP''
                    then Inl IgnoreFailoverEvent
                    else validate_jobs js event))"

text \<open>\<^verbatim>\<open>[i for i in current_events if i['state'] == 'RUNNING']\<close>.\<close>

fun running_jobs :: "pyval list \<Rightarrow> exn + pyval list" where
  "running_jobs [] = Inr []"
| "running_jobs (i # js) =
     (case getitem i (PStr ''state'') of Inl e \<Rightarrow> Inl e
      | Inr st \<Rightarrow> (case running_jobs js of Inl e \<Rightarrow> Inl e
                   | Inr rs \<Rightarrow> Inr (if st = PStr ''RUNNING'' then i # rs else rs)))"

text \<open>
  The filter passed to \<^verbatim>\<open>core.get_jobs\<close> is built first. Lines 178-179 read
  \<^verbatim>\<open>('method', '=', 'failover.events.vrrp_master')('method', '=', 'failover.events.vrrp_backup')\<close>
  with no comma between the two tuples: the first tuple is called with the elements of
  the second as arguments.
\<close>

definition get_jobs_filter :: "exn + pyval" where
  "get_jobs_filter =
     (case py_call (PTuple [PStr ''method'', PStr ''='', PStr ''failover.events.vrrp_master''])
                   [PStr ''method'', PStr ''='', PStr ''failover.events.vrrp_backup''] of
        Inl e \<Rightarrow> Inl e
      | Inr t \<Rightarrow> Inr (PList [PTuple [PStr ''OR'', PList [t]]]))"

definition validate :: "env \<Rightarrow> string \<Rightarrow> string \<Rightarrow> unit comp" where
  "validate mw ifname event =
     andthen (lift get_jobs_filter) (\<lambda>flt.
     andthen (run_call mw (Call ''core.get_jobs'' [flt] [])) (\<lambda>current_events.
     andthen (lift (py_iter current_events)) (\<lambda>evs.
     andthen (lift (running_jobs evs)) (\<lambda>running.
     lift (validate_jobs running event)))))"


section \<open>The snapshot\<close>

text \<open>
  Modelled from the spec: \<^verbatim>\<open>middlewared.utils.filter_list\<close> is not part of the plugin.
  The spec's snapshot holds the "set of non-critical interface names" and the "mapping
  from failover-group id to ordered set of critical interface names"; the two filters
  used are \<^verbatim>\<open>('failover_critical', '!=', True)\<close> and \<^verbatim>\<open>('failover_critical', '=', True)\<close>.
  An entry without the field counts as not critical.
\<close>

fun failover_critical :: "pyval \<Rightarrow> bool" where
  "failover_critical (PDict d) =
     (case dict_find d (PStr ''failover_critical'') of
        None \<Rightarrow> False | Some x \<Rightarrow> key_norm x = PInt 1)"
| "failover_critical v = False"

definition filter_list :: "pyval \<Rightarrow> bool \<Rightarrow> exn + pyval list" where
  "filter_list v critical =
     ebind (py_iter v) (\<lambda>xs. Inr (filter (\<lambda>i. failover_critical i = critical) xs))"

text \<open>\<^verbatim>\<open>[i['id'] for i in ...]\<close>.\<close>

fun interface_ids :: "pyval list \<Rightarrow> exn + pyval list" where
  "interface_ids [] = Inr []"
| "interface_ids (i # is) =
     ebind (getitem i (PStr ''id'')) (\<lambda>x. ebind (interface_ids is) (\<lambda>xs. Inr (x # xs)))"

text \<open>\<^verbatim>\<open>data['groups'][i['failover_group']].append(i['id'])\<close> on a \<^verbatim>\<open>defaultdict(list)\<close>.\<close>

fun build_groups :: "pyval list \<Rightarrow> (pyval \<times> pyval) list \<Rightarrow> exn + (pyval \<times> pyval) list" where
  "build_groups [] d = Inr d"
| "build_groups (i # is) d =
     ebind (getitem i (PStr ''failover_group'')) (\<lambda>g.
       if \<not> hashable g then Inl TypeError
       else ebind (getitem i (PStr ''id'')) (\<lambda>x.
         build_groups is
           (dict_set d g (PList ((case dict_find d g of Some (PList xs) \<Rightarrow> xs | _ \<Rightarrow> []) @ [x])))))"

text \<open>\<^verbatim>\<open>generate_failover_data\<close> (lines 114-153).\<close>

definition generate_failover_data :: "env \<Rightarrow> pyval comp" where
  "generate_failover_data mw =
     andthen (run_call mw (Call ''pool.query''
                [PList [], PDict [(PStr ''select'', PList [PStr ''name'', PStr ''guid'', PStr ''status''])]] []))
       (\<lambda>volumes.
     andthen (run_call mw (Call ''datastore.query'' [PStr ''services_services''] [])) (\<lambda>services.
     andthen (run_call mw (Call ''failover.config'' [] [])) (\<lambda>failovercfg.
     andthen (run_call mw (Call ''interface.query'' [] [])) (\<lambda>interfaces.
     andthen (run_call mw (Call ''failover.internal_interfaces'' [] [])) (\<lambda>internal_ints.
     andthen (lift (getitem failovercfg (PStr ''disabled''))) (\<lambda>disabled.
     andthen (lift (getitem failovercfg (PStr ''master''))) (\<lambda>master.
     andthen (lift (getitem failovercfg (PStr ''timeout''))) (\<lambda>timeout.
     andthen (lift (ebind (filter_list interfaces False) interface_ids)) (\<lambda>non_crit.
     andthen (lift (ebind (filter_list interfaces True) (\<lambda>crit. build_groups crit []))) (\<lambda>groups.
     ret (PDict [(PStr ''services'', services),
                 (PStr ''disabled'', disabled),
                 (PStr ''master'', master),
                 (PStr ''timeout'', timeout),
                 (PStr ''groups'', PDict groups),
                 (PStr ''volumes'', volumes),
                 (PStr ''non_crit_interfaces'', PList non_crit),
                 (PStr ''internal_interfaces'', internal_ints)])))))))))))"


section \<open>Files\<close>

definition zpool_killcache :: string where
  "zpool_killcache = ''/data/zfs/killcache''"

definition zpool_cache_file :: string where
  "zpool_cache_file = ''/data/zfs/zpool.cache''"

definition zpool_cache_file_saved :: string where
  "zpool_cache_file_saved = zpool_cache_file @ ''.saved''"

definition watchdog_alert_file :: string where
  "watchdog_alert_file = ''/data/sentinels/.watchdog-alert''"

definition path_exists :: "state \<Rightarrow> string \<Rightarrow> bool" where
  "path_exists s p = (map_of (files s) p \<noteq> None)"

definition unlink :: "string \<Rightarrow> unit comp" where
  "unlink p s =
     (if path_exists s p then (Inr (), s\<lparr>files := filter (\<lambda>(q, t). q \<noteq> p) (files s)\<rparr>)
      else (Inl FileNotFoundError, s))"

text \<open>\<^verbatim>\<open>open(p, 'w')\<close> creates or truncates the file; \<^verbatim>\<open>open(p)\<close> opens it for reading.\<close>

datatype mode = ReadMode | WriteMode

definition open_file :: "string \<Rightarrow> mode \<Rightarrow> (string \<times> mode) comp" where
  "open_file p m s =
     (case m of
        WriteMode \<Rightarrow>
          (Inr (p, m), s\<lparr>files := (p, clock s) # filter (\<lambda>(q, t). q \<noteq> p) (files s)\<rparr>)
      | ReadMode \<Rightarrow>
          (if path_exists s p then (Inr (p, m), s) else (Inl FileNotFoundError, s)))"

text \<open>
  \<^verbatim>\<open>f.write(x)\<close>: a TypeError unless \<^verbatim>\<open>x\<close> is a string, and
  \<^verbatim>\<open>io.UnsupportedOperation\<close> on a file opened for reading.
\<close>

definition write_file :: "string \<times> mode \<Rightarrow> pyval \<Rightarrow> unit comp" where
  "write_file f x s =
     (case x of
        PStr d \<Rightarrow>
          (if snd f = WriteMode then (Inr (), s\<lparr>written := written s @ [(fst f, d)]\<rparr>)
           else (Inl UnsupportedOperation, s))
      | _ \<Rightarrow> (Inl TypeError, s))"

text \<open>\<^verbatim>\<open>shutil.copy2\<close> copies the data and the modification time.\<close>

definition copy2 :: "string \<Rightarrow> string \<Rightarrow> unit comp" where
  "copy2 src dst s =
     (case map_of (files s) src of
        None \<Rightarrow> (Inl FileNotFoundError, s)
      | Some t \<Rightarrow> (Inr (), s\<lparr>files := (dst, t) # filter (\<lambda>(q, t). q \<noteq> dst) (files s)\<rparr>))"

definition st_mtime :: "string \<Rightarrow> int comp" where
  "st_mtime p s =
     (case map_of (files s) p of None \<Rightarrow> (Inl FileNotFoundError, s) | Some t \<Rightarrow> (Inr t, s))"

text \<open>\<^verbatim>\<open>with contextlib.suppress(Exception):\<close>.\<close>

definition suppress :: "unit comp \<Rightarrow> unit comp" where
  "suppress m s = (case m s of (Inl e, s') \<Rightarrow> (Inr (), s') | (Inr x, s') \<Rightarrow> (Inr (), s'))"

text \<open>\<^verbatim>\<open>try: m  except Exception as e: h e\<close>, continuing with \<open>k\<close> when nothing was raised.\<close>

definition try_except :: "'a comp \<Rightarrow> (exn \<Rightarrow> 'b comp) \<Rightarrow> ('a \<Rightarrow> 'b comp) \<Rightarrow> 'b comp" where
  "try_except m h k s = (case m s of (Inl e, s') \<Rightarrow> h e s' | (Inr x, s') \<Rightarrow> k x s')"


section \<open>Jobs\<close>

definition set_progress :: "string \<Rightarrow> unit comp" where
  "set_progress d s = (Inr (), s\<lparr>progress := progress s @ [d]\<rparr>)"

definition set_result :: "pyval \<Rightarrow> unit comp" where
  "set_result v s = (Inr (), s\<lparr>results := results s @ [v]\<rparr>)"

text \<open>\<^verbatim>\<open>return self.failover_successful\<close>.\<close>

definition return_flag :: "pyval comp" where
  "return_flag s = (Inr (PBool (failover_successful s)), s)"

text \<open>\<^verbatim>\<open>self.failover_successful = True\<close>.\<close>

definition mark_successful :: "unit comp" where
  "mark_successful s = (Inr (), s\<lparr>failover_successful := True\<rparr>)"

text \<open>The last two lines of both transitions: the flag is set and returned.\<close>

definition finish_successful :: "pyval comp" where
  "finish_successful = next_do mark_successful return_flag"

definition ha_propagate :: pyval where
  "ha_propagate = PDict [(PStr ''ha_propagate'', PBool False)]"

definition critical_services :: "string list" where
  "critical_services = [''iscsitarget'', ''cifs'', ''nfs'', ''afp'']"

text \<open>
  Modelled from the spec: the \<^verbatim>\<open>@job\<close> decorator and the job object of
  \<^verbatim>\<open>middlewared.service\<close> are not part of the plugin. The spec has the dispatcher "wait
  synchronously for completion" of the transition; the plugin's own comment (lines
  341-343) says that "raising an exception in a job will cause the state to be set to
  FAILED", and \<^verbatim>\<open>_event\<close> reads the outcome from the job's \<^verbatim>\<open>error\<close> attribute. So a
  call of a job method runs the body to its end and returns a job object: when the body
  raised, its \<^verbatim>\<open>error\<close> is the text of the exception and its result is the last one set
  by the body; otherwise \<^verbatim>\<open>error\<close> is \<^verbatim>\<open>None\<close> and the result is the returned value.
\<close>

definition wait_sync :: "env \<Rightarrow> pyval \<Rightarrow> exn + pyval" where
  "wait_sync mw j =
     (case j of PJob e r \<Rightarrow> Inr (wait_sync_value mw (PJob e r)) | _ \<Rightarrow> Inl AttributeError)"

definition run_job :: "env \<Rightarrow> call \<Rightarrow> pyval comp \<Rightarrow> pyval comp" where
  "run_job mw c body s =
     (case body (s\<lparr>trace := trace s @ [c]\<rparr>) of
        (Inl e, s') \<Rightarrow>
          (let rs = drop (length (results s)) (results s')
           in (Inr (PJob (PStr (exn_str mw e)) (if rs = [] then PNone else last rs)), s'))
      | (Inr v, s') \<Rightarrow> (Inr (PJob PNone v), s'))"


section \<open>The MASTER transition\<close>

text \<open>
  Lines 304-353: fencing. Forced, it is stopped and started with \<^verbatim>\<open>force=True\<close>;
  otherwise the failover group is checked first and the event ignored when
  \<^verbatim>\<open>len(status[1])\<close> is not zero.
\<close>

definition start_fenced :: "env \<Rightarrow> pyval \<Rightarrow> string \<Rightarrow> bool \<Rightarrow> bool \<Rightarrow> pyval comp" where
  "start_fenced mw fobj ifname force_fenced forcetakeover =
     (if forcetakeover \<or> force_fenced then
        next_do (run_call_unit mw (Call ''failover.fenced.stop'' [] []))
                (run_call mw (Call ''failover.fenced.start'' [] [(''force'', PBool True)]))
      else
        andthen (lift (getitem fobj (PStr ''groups''))) (\<lambda>groups.
        andthen (run_call mw (Call ''failover.vip.check_failover_group'' [PStr ifname, groups] []))
          (\<lambda>status.
        andthen (lift (ebind (getitem status (PInt 1)) py_len)) (\<lambda>n.
          if n \<noteq> 0 then
            andthen (lift (getitem status (PInt 0))) (\<lambda>_.
            next_do (set_result (PStr ''IGNORED'')) (raise IgnoreFailoverEvent))
          else
            next_do (run_call_unit mw (Call ''failover.fenced.stop'' [] []))
                    (run_call mw (Call ''failover.fenced.start'' [] []))))))"

text \<open>Lines 371-392: the pool cache files; every write is best effort.\<close>

definition zpool_cache_bookkeeping :: "unit comp" where
  "zpool_cache_bookkeeping =
     next_do
       (\<lambda>s. if path_exists s zpool_killcache
            then next_do (suppress (unlink zpool_cache_file))
                         (suppress (unlink zpool_cache_file_saved)) s
            else suppress (andthen (open_file zpool_killcache WriteMode) (\<lambda>f. ret ())) s)
       (\<lambda>s. if path_exists s zpool_cache_file_saved \<and> path_exists s zpool_cache_file
            then andthen (st_mtime zpool_cache_file) (\<lambda>zpool_cache_mtime.
                 andthen (st_mtime zpool_cache_file_saved) (\<lambda>zpool_cache_saved_mtime.
                   if zpool_cache_mtime > zpool_cache_saved_mtime
                   then suppress (copy2 zpool_cache_file zpool_cache_file_saved)
                   else ret ())) s
            else ret () s)"

text \<open>
  Lines 397-422: the import loop. \<^verbatim>\<open>import_pool\<close> is called through \<^verbatim>\<open>run_call\<close> inside
  the \<^verbatim>\<open>try\<close>; the \<^verbatim>\<open>except\<close> clause records the volume in \<^verbatim>\<open>failed\<close> with the text of
  the exception.
\<close>

definition import_pool :: "env \<Rightarrow> pyval \<Rightarrow> pyval comp" where
  "import_pool mw vol =
     andthen (lift (getitem vol (PStr ''guid''))) (\<lambda>guid.
     run_call mw (Call ''zfs.pool.import_pool''
        [guid, PDict [(PStr ''altroot'', PStr ''/mnt''), (PStr ''cachefile'', PStr zpool_cache_file)]] []))"

definition unlock_zfs_datasets :: "env \<Rightarrow> pyval \<Rightarrow> unit comp" where
  "unlock_zfs_datasets mw vol =
     andthen (lift (getitem vol (PStr ''name''))) (\<lambda>name.
     andthen (run_call mw (Call ''failover.unlock_zfs_datasets'' [name] [])) (\<lambda>unlock_job.
     andthen (lift (wait_sync mw unlock_job)) (\<lambda>_.
     andthen (lift (job_error unlock_job)) (\<lambda>err.
       if truthy err then ret ()
       else
         andthen (lift (ebind (job_result unlock_job) (\<lambda>r. getitem r (PStr ''failed'')))) (\<lambda>f.
           if truthy f
           then lift (ebind (job_result unlock_job) (\<lambda>r.
                      ebind (getitem r (PStr ''failed'')) py_join))
           else ret ())))))"

fun import_volumes :: "env \<Rightarrow> pyval list \<Rightarrow> pyval list \<Rightarrow> pyval list comp" where
  "import_volumes mw [] failed = ret failed"
| "import_volumes mw (vol # vols) failed =
     andthen (lift (getitem vol (PStr ''name''))) (\<lambda>_.
     try_except (import_pool mw vol)
       (\<lambda>e. andthen (lift (setitem vol (PStr ''error'') (PStr (exn_str mw e)))) (\<lambda>vol'.
             import_volumes mw vols (failed @ [vol'])))
       (\<lambda>_. next_do (unlock_zfs_datasets mw vol) (import_volumes mw vols failed)))"

text \<open>
  Lines 427-431 and 440-447: the loop that logs the failed volumes evaluates
  \<^verbatim>\<open>failed['name']\<close>, subscripting the list \<^verbatim>\<open>failed\<close> itself, once per element.
\<close>

definition log_failed :: "pyval list \<Rightarrow> unit comp" where
  "log_failed failed =
     for_each failed (\<lambda>i. andthen (lift (getitem (PList failed) (PStr ''name''))) (\<lambda>_. ret ()))"

text \<open>Lines 467-473: the critical services, in their fixed order.\<close>

definition restart_critical :: "env \<Rightarrow> pyval \<Rightarrow> unit comp" where
  "restart_critical mw fobj =
     for_each critical_services (\<lambda>i.
       andthen (lift (ebind (getitem fobj (PStr ''services'')) py_iter)) (\<lambda>services.
       for_each services (\<lambda>j.
         andthen (lift (getitem j (PStr ''srv_service''))) (\<lambda>srv.
           if PStr i = srv then
             andthen (lift (getitem j (PStr ''srv_enable''))) (\<lambda>en.
               if truthy en
               then run_call_unit mw (Call ''service.restart'' [PStr i, ha_propagate] [])
               else ret ())
           else ret ()))))"

text \<open>Lines 501-504: the remaining enabled services.\<close>

definition restart_remaining :: "env \<Rightarrow> pyval \<Rightarrow> unit comp" where
  "restart_remaining mw fobj =
     andthen (lift (ebind (getitem fobj (PStr ''services'')) py_iter)) (\<lambda>services.
     for_each services (\<lambda>i.
       andthen (lift (getitem i (PStr ''srv_service''))) (\<lambda>srv.
         if srv \<notin> PStr ` set critical_services then
           andthen (lift (getitem i (PStr ''srv_enable''))) (\<lambda>en.
             if truthy en then
               andthen (lift (getitem i (PStr ''service''))) (\<lambda>_.
               andthen (lift (getitem i (PStr ''srv_service''))) (\<lambda>srv'.
               run_call_unit mw (Call ''service.restart'' [srv', ha_propagate] [])))
             else ret ())
         else ret ())))"

text \<open>Lines 449-529: everything after the imports.\<close>

definition post_import :: "env \<Rightarrow> pyval \<Rightarrow> pyval comp" where
  "post_import mw fobj =
     next_do (run_call_unit mw (Call ''failover.status_refresh'' [] []))
    (next_do (run_call_unit mw (Call ''etc.generate'' [PStr ''rc''] []))
    (next_do (run_call_unit mw (Call ''etc.generate'' [PStr ''system_dataset''] []))
    (next_do (run_call_unit mw (Call ''etc.generate'' [PStr ''ssl''] []))
    (next_do (run_call_unit mw (Call ''service.restart'' [PStr ''http''] []))
    (next_do (restart_critical mw fobj)
    (next_do (run_call_unit mw (Call ''etc.generate'' [PStr ''cron''] []))
    (next_do (run_call_unit mw (Call ''disk.sync_all'' [] []))
    (next_do (run_call_unit mw (Call ''enclosure.sync_zpool'' [] []))
    (next_do (run_call_unit mw (Call ''service.restart'' [PStr ''collectd'', ha_propagate] []))
    (next_do (run_call_unit mw (Call ''service.restart'' [PStr ''syslogd'', ha_propagate] []))
    (next_do (restart_remaining mw fobj)
    (next_do (run_call_unit mw (Call ''alert.block_failover_alerts'' [] []))
    (next_do (run_call_unit mw (Call ''alert.initialize'' [PBool False] []))
    (andthen (run_call mw (Call ''kmip.config'' [] [])) (\<lambda>kmip_config.
     next_do
       (if truthy kmip_config then
          andthen (lift (getitem kmip_config (PStr ''enabled''))) (\<lambda>en.
            if truthy en then run_call_unit mw (Call ''kmip.initialize_keys'' [] []) else ret ())
        else ret ())
       finish_successful)))))))))))))))"

text \<open>Lines 371-529: what follows a successful start of fencing.\<close>

definition import_and_restart :: "env \<Rightarrow> pyval \<Rightarrow> pyval comp" where
  "import_and_restart mw fobj =
     next_do zpool_cache_bookkeeping
    (next_do (set_progress ''IMPORTING'')
    (andthen (lift (ebind (getitem fobj (PStr ''volumes'')) py_iter)) (\<lambda>vols.
     andthen (import_volumes mw vols []) (\<lambda>failed.
     andthen (lift (ebind (getitem fobj (PStr ''volumes'')) py_len)) (\<lambda>n.
       if length failed = n then
         next_do (log_failed failed)
        (next_do (set_result (PStr ''ERROR'')) return_flag)
       else
         next_do (if failed \<noteq> []
                  then next_do (set_result (PStr ''ERROR'')) (log_failed failed)
                  else ret ())
                 (post_import mw fobj))))))"

text \<open>\<^verbatim>\<open>vrrp_master\<close> (lines 293-529).\<close>

definition vrrp_master ::
  "env \<Rightarrow> pyval \<Rightarrow> string \<Rightarrow> string \<Rightarrow> bool \<Rightarrow> bool \<Rightarrow> pyval comp" where
  "vrrp_master mw fobj ifname event force_fenced forcetakeover =
     next_do (set_progress ''ELECTING'')
    (andthen (start_fenced mw fobj ifname force_fenced forcetakeover) (\<lambda>fenced_error.
       if truthy fenced_error then return_flag else import_and_restart mw fobj))"


section \<open>The BACKUP transition\<close>

text \<open>\<^verbatim>\<open>_zpool_export_sig_alarm\<close> (lines 110-112).\<close>

definition zpool_export_sig_alarm :: "'a comp" where
  "zpool_export_sig_alarm s = (Inl ZpoolExportTimeout, s\<lparr>alarms := Suc (alarms s)\<rparr>)"

text \<open>
  \<^verbatim>\<open>run_call\<close> while the timer may expire: when it does, the handler raises inside
  \<^verbatim>\<open>call_sync\<close>, that is inside the \<^verbatim>\<open>try\<close> of \<^verbatim>\<open>run_call\<close>, whose
  \<^verbatim>\<open>except Exception\<close> clause applies to it as to any other exception.
\<close>

definition call_sync_alarm :: "env \<Rightarrow> bool \<Rightarrow> call \<Rightarrow> pyval comp" where
  "call_sync_alarm mw expires c s =
     (if expires then zpool_export_sig_alarm (s\<lparr>trace := trace s @ [c]\<rparr>)
      else (call_sync mw (trace s) c, s\<lparr>trace := trace s @ [c]\<rparr>))"

definition run_call_alarm :: "env \<Rightarrow> bool \<Rightarrow> call \<Rightarrow> pyval comp" where
  "run_call_alarm mw expires c = try_except (call_sync_alarm mw expires c) (\<lambda>e. ret PNone) ret"

text \<open>\<^verbatim>\<open>time.sleep(5)\<close>.\<close>

definition sleep5 :: "env \<Rightarrow> unit comp" where
  "sleep5 mw = (if sigalrm mw = AlarmInSleep then zpool_export_sig_alarm else ret ())"

text \<open>
  Lines 587-591: the watchdog marker. The file is opened for writing, then
  \<^verbatim>\<open>f.write(int(time.time()))\<close> is given an integer; the whole block is under
  \<^verbatim>\<open>contextlib.suppress(Exception)\<close>.
\<close>

definition time_now :: "pyval comp" where
  "time_now s = (Inr (PInt (clock s)), s)"

definition write_watchdog_alert :: "unit comp" where
  "write_watchdog_alert =
     suppress (andthen (open_file watchdog_alert_file WriteMode) (\<lambda>f.
               andthen time_now (\<lambda>now. write_file f now)))"

text \<open>Lines 603-605: the export loop.\<close>

fun export_volumes :: "env \<Rightarrow> nat \<Rightarrow> pyval list \<Rightarrow> unit comp" where
  "export_volumes mw n [] = ret ()"
| "export_volumes mw n (vol # vols) =
     andthen (lift (getitem vol (PStr ''name''))) (\<lambda>name.
     andthen (run_call_alarm mw (sigalrm mw = AlarmInExportCall n)
                (Call ''zfs.pool.export'' [name, PDict [(PStr ''force'', PBool True)]] [])) (\<lambda>_.
     andthen (lift (getitem vol (PStr ''name''))) (\<lambda>_.
     export_volumes mw (Suc n) vols)))"

text \<open>
  Lines 611-617: the reboot through the kernel's sysrq files. Both files are opened with
  \<^verbatim>\<open>open(path)\<close>, that is for reading, and then written to.
\<close>

definition sysrq_reboot :: "unit comp" where
  "sysrq_reboot =
     andthen (open_file ''/proc/sys/kernel/sysrq'' ReadMode) (\<lambda>f.
     next_do (write_file f (PStr ''1''))
    (andthen (open_file ''/proc/sysrq-trigger'' ReadMode) (\<lambda>f.
     write_file f (PStr ''b''))))"

text \<open>\<^verbatim>\<open>try: m  except ZpoolExportTimeout: h\<close>.\<close>

definition on_timeout :: "unit comp \<Rightarrow> unit comp \<Rightarrow> unit comp" where
  "on_timeout m h s =
     (case m s of
        (Inl e, s') \<Rightarrow> if e = ZpoolExportTimeout then h s' else (Inl e, s')
      | (Inr x, s') \<Rightarrow> (Inr x, s'))"

text \<open>Lines 598-617: the export under the timer.\<close>

definition export_step :: "env \<Rightarrow> pyval \<Rightarrow> unit comp" where
  "export_step mw fobj =
     on_timeout
       (try_except
          (andthen (lift (ebind (getitem fobj (PStr ''volumes'')) py_iter)) (\<lambda>vols.
           export_volumes mw 0 vols))
          (\<lambda>e. sleep5 mw) ret)
       sysrq_reboot"

text \<open>Lines 641-644: SSH is kept running.\<close>

definition restart_ssh :: "env \<Rightarrow> pyval \<Rightarrow> unit comp" where
  "restart_ssh mw fobj =
     andthen (lift (ebind (getitem fobj (PStr ''services'')) py_iter)) (\<lambda>services.
     for_each services (\<lambda>i.
       andthen (lift (getitem i (PStr ''srv_service''))) (\<lambda>srv.
         if srv = PStr ''ssh'' then
           andthen (lift (getitem i (PStr ''srv_enable''))) (\<lambda>en.
             if truthy en
             then run_call_unit mw (Call ''service.restart'' [PStr ''ssh'', ha_propagate] [])
             else ret ())
         else ret ())))"

text \<open>\<^verbatim>\<open>vrrp_backup\<close> (lines 531-655).\<close>

definition vrrp_backup :: "env \<Rightarrow> pyval \<Rightarrow> string \<Rightarrow> string \<Rightarrow> bool \<Rightarrow> pyval comp" where
  "vrrp_backup mw fobj ifname event force_fenced =
     andthen (lift (getitem fobj (PStr ''groups''))) (\<lambda>groups.
     andthen (run_call mw (Call ''failover.vip.check_failover_group'' [PStr ifname, groups] []))
       (\<lambda>status.
     andthen (lift (ebind (getitem status (PInt 0)) py_len)) (\<lambda>n.
       if n \<noteq> 0 then
         andthen (lift (getitem status (PInt 1))) (\<lambda>_.
         next_do (set_result (PStr ''IGNORED'')) (raise IgnoreFailoverEvent))
       else
         next_do (run_call_unit mw (Call ''failover.fenced.stop'' [] []))
        (next_do (run_call_unit mw (Call ''service.restart'' [PStr ''keepalived''] []))
        (next_do write_watchdog_alert
        (next_do (export_step mw fobj)
        (next_do (suppress (unlink watchdog_alert_file))
        (next_do (run_call_unit mw (Call ''failover.status_refresh'' [] []))
        (next_do (run_call_unit mw (Call ''service.restart'' [PStr ''syslogd'', ha_propagate] []))
        (next_do (run_call_unit mw (Call ''etc.generate'' [PStr ''cron''] []))
        (next_do (run_call_unit mw (Call ''service.stop'' [PStr ''smartd'', ha_propagate] []))
        (next_do (run_call_unit mw (Call ''service.stop'' [PStr ''collectd'', ha_propagate] []))
        (next_do (restart_ssh mw fobj)
        (next_do (run_call_unit mw
                    (Call ''failover.call_remote'' [PStr ''failover.sync_keys_to_remote_node''] []))
        finish_successful))))))))))))))"


section \<open>The dispatcher\<close>

text \<open>\<^verbatim>\<open>[i for i in fobj['non_crit_interfaces'] if i in ifname]\<close> (line 226).\<close>

fun non_crit_matches :: "pyval list \<Rightarrow> string \<Rightarrow> exn + pyval list" where
  "non_crit_matches [] ifname = Inr []"
| "non_crit_matches (i # is) ifname =
     ebind (in_str i ifname) (\<lambda>b.
     ebind (non_crit_matches is ifname) (\<lambda>xs. Inr (if b then i # xs else xs)))"

text \<open>Lines 244-249: is there a pool whose status is not ONLINE?\<close>

definition pool_query :: "pyval \<Rightarrow> call" where
  "pool_query name =
     Call ''pool.query''
       [PList [PTuple [PStr ''name'', PStr ''='', name]], PDict [(PStr ''get'', PBool True)]] []"

fun needs_imported :: "env \<Rightarrow> pyval list \<Rightarrow> bool comp" where
  "needs_imported mw [] = ret False"
| "needs_imported mw (vol # vols) =
     andthen (lift (getitem vol (PStr ''name''))) (\<lambda>name.
     andthen (run_call mw (pool_query name)) (\<lambda>zpool.
     andthen (lift (getitem zpool (PStr ''status''))) (\<lambda>status.
       if status \<noteq> PStr ''ONLINE'' then ret True else needs_imported mw vols)))"

text \<open>
  Lines 214-249: the checks made when the event is not a forced takeover. Each of the
  first three raises \<^verbatim>\<open>IgnoreFailoverEvent\<close>; the value returned is \<^verbatim>\<open>needs_imported\<close>.
\<close>

definition soft_checks :: "env \<Rightarrow> pyval \<Rightarrow> string \<Rightarrow> bool comp" where
  "soft_checks mw fobj ifname =
     andthen (lift (getitem fobj (PStr ''disabled''))) (\<lambda>disabled.
     andthen (if truthy disabled
              then andthen (lift (getitem fobj (PStr ''master''))) (\<lambda>master. ret (\<not> truthy master))
              else ret False) (\<lambda>assume_backup.
       if assume_backup then raise IgnoreFailoverEvent
       else
         andthen (lift (ebind (ebind (getitem fobj (PStr ''non_crit_interfaces'')) py_iter)
                              (\<lambda>is. non_crit_matches is ifname))) (\<lambda>ignore.
           if ignore \<noteq> [] then raise IgnoreFailoverEvent
           else
             andthen (run_call mw (Call ''failover.remote_connected'' [] [])) (\<lambda>remote_connected.
             andthen (if truthy remote_connected
                      then andthen (run_call mw (Call ''failover.call_remote'' [PStr ''failover.status''] []))
                             (\<lambda>r. ret (r = PStr ''MASTER''))
                      else ret False) (\<lambda>remote_master.
               if remote_master then raise IgnoreFailoverEvent
               else
                 andthen (lift (ebind (getitem fobj (PStr ''volumes'')) py_iter)) (\<lambda>vols.
                 needs_imported mw vols))))))"

text \<open>
  Line 265: \<^verbatim>\<open>validate\<close> is itself called through \<^verbatim>\<open>run_call\<close>, so whatever it raises is
  logged and dropped.
\<close>

definition run_validate :: "env \<Rightarrow> string \<Rightarrow> string \<Rightarrow> unit comp" where
  "run_validate mw ifname event =
     try_except
       (\<lambda>s. validate mw ifname event
              (s\<lparr>trace := trace s @ [Call ''failover.events.validate'' [PStr ifname, PStr event] []]\<rparr>))
       (\<lambda>e. ret ()) (\<lambda>_. ret ())"

text \<open>
  Reading the local variable \<^verbatim>\<open>force_fenced\<close>, which is assigned only at line 261,
  inside \<^verbatim>\<open>if not forcetakeover:\<close>.
\<close>

definition read_local :: "'a option \<Rightarrow> exn + 'a" where
  "read_local v = (case v of None \<Rightarrow> Inl UnboundLocalError | Some x \<Rightarrow> Inr x)"

text \<open>Lines 263-291: validation and the dispatch of the transition.\<close>

definition dispatch :: "env \<Rightarrow> pyval \<Rightarrow> string \<Rightarrow> string \<Rightarrow> bool option \<Rightarrow> bool \<Rightarrow> pyval comp" where
  "dispatch mw fobj ifname event force_fenced forcetakeover =
     next_do (run_validate mw ifname event)
       (if event \<in> {''MASTER'', ''forcetakeover''} then
          andthen (lift (read_local force_fenced)) (\<lambda>ff.
          andthen (run_job mw (Call ''failover.events.vrrp_master''
                     [fobj, PStr ifname, PStr event, PBool ff, PBool forcetakeover] [])
                     (vrrp_master mw fobj ifname event ff forcetakeover)) (\<lambda>j.
          andthen (lift (wait_sync mw j)) (\<lambda>vrrp_master_job.
          andthen (lift (job_error vrrp_master_job)) (\<lambda>err.
            if truthy err then return_flag else ret PNone))))
        else if event = ''BACKUP'' then
          andthen (lift (read_local force_fenced)) (\<lambda>ff.
          andthen (run_job mw (Call ''failover.events.vrrp_backup''
                     [fobj, PStr ifname, PStr event, PBool ff] [])
                     (vrrp_backup mw fobj ifname event ff)) (\<lambda>j.
          andthen (lift (wait_sync mw j)) (\<lambda>vrrp_backup_job.
          andthen (lift (job_error vrrp_backup_job)) (\<lambda>err.
            if truthy err then return_flag else ret PNone))))
        else ret PNone)"

text \<open>\<^verbatim>\<open>_event\<close> (lines 205-291).\<close>

definition event_inner :: "env \<Rightarrow> string \<Rightarrow> string \<Rightarrow> pyval comp" where
  "event_inner mw ifname event =
     andthen (generate_failover_data mw) (\<lambda>fobj.
       if event \<noteq> ''forcetakeover'' then
         andthen (soft_checks mw fobj ifname) (\<lambda>needs.
           if \<not> needs then ret PNone
           else dispatch mw fobj ifname ''MASTER'' (Some needs) False)
       else dispatch mw fobj ifname event None True)"

text \<open>
  \<^verbatim>\<open>event\<close> (lines 97-108): \<^verbatim>\<open>IgnoreFailoverEvent\<close> is caught and the function returns
  \<^verbatim>\<open>None\<close>; in every other case the \<^verbatim>\<open>finally\<close> clause refreshes the failover status.
\<close>

definition event :: "env \<Rightarrow> string \<Rightarrow> string \<Rightarrow> pyval comp" where
  "event mw ifname ev s =
     (case event_inner mw ifname ev s of
        (Inl e, s') \<Rightarrow>
          if e = IgnoreFailoverEvent then (Inr PNone, s')
          else (Inl e, snd (run_call mw (Call ''failover.status_refresh'' [] []) s'))
      | (Inr v, s') \<Rightarrow> (Inr v, snd (run_call mw (Call ''failover.status_refresh'' [] []) s')))"



section \<open>Frame conditions\<close>

text \<open>
  \<open>preserves P m\<close>: running \<open>m\<close> keeps the state property \<open>P\<close>, whether \<open>m\<close> returns or
  raises. The four conditions below say which updates of the state a property survives:
  files, progress and the alarm count, a collaborator call whose method is in \<open>X\<close>, a job
  result in \<open>V\<close>, and setting \<^verbatim>\<open>failover_successful\<close>.
\<close>

definition preserves :: "(state \<Rightarrow> bool) \<Rightarrow> 'a comp \<Rightarrow> bool" where
  "preserves P m \<longleftrightarrow> (\<forall>s. P s \<longrightarrow> P (snd (m s)))"

definition fs_stable :: "(state \<Rightarrow> bool) \<Rightarrow> bool" where
  "fs_stable P \<longleftrightarrow>
     (\<forall>s f w p n. P s \<longrightarrow> P (s\<lparr>files := f\<rparr>) \<and> P (s\<lparr>written := w\<rparr>) \<and>
        P (s\<lparr>progress := p\<rparr>) \<and> P (s\<lparr>alarms := n\<rparr>))"

definition call_stable :: "(state \<Rightarrow> bool) \<Rightarrow> string set \<Rightarrow> bool" where
  "call_stable P X \<longleftrightarrow> (\<forall>s c. meth c \<in> X \<longrightarrow> P s \<longrightarrow> P (s\<lparr>trace := trace s @ [c]\<rparr>))"

definition result_stable :: "(state \<Rightarrow> bool) \<Rightarrow> pyval set \<Rightarrow> bool" where
  "result_stable P V \<longleftrightarrow> (\<forall>s v. v \<in> V \<longrightarrow> P s \<longrightarrow> P (s\<lparr>results := results s @ [v]\<rparr>))"


definition returns_in :: "('a \<Rightarrow> state \<Rightarrow> bool) \<Rightarrow> 'a comp \<Rightarrow> bool" where
  "returns_in Q m \<longleftrightarrow> (\<forall>s v s'. m s = (Inr v, s') \<longrightarrow> Q v s')"

text \<open>
  \<open>flag_only_on_success m\<close>: however \<open>m\<close> ends, it has left \<^verbatim>\<open>failover_successful\<close> as it
  was, unless it returned \<^verbatim>\<open>True\<close> with the flag set.
\<close>

definition flag_only_on_success :: "pyval comp \<Rightarrow> bool" where
  "flag_only_on_success m \<longleftrightarrow>
     (\<forall>s r s'. m s = (r, s') \<longrightarrow>
        failover_successful s' = failover_successful s \<or>
        (r = Inr (PBool True) \<and> failover_successful s'))"

text \<open>The calls made since the trace was \<open>t\<close> all have their method in the list \<open>X\<close>.\<close>

definition only_calls :: "string list \<Rightarrow> call list \<Rightarrow> state \<Rightarrow> bool" where
  "only_calls X t s \<longleftrightarrow>
     take (length t) (trace s) = t \<and> list_all (\<lambda>c. meth c \<in> set X) (drop (length t) (trace s))"


text \<open>The form of every snapshot that \<^verbatim>\<open>generate_failover_data\<close> returns.\<close>

definition snapshot_shape :: "pyval \<Rightarrow> bool" where
  "snapshot_shape fobj \<longleftrightarrow>
     (\<exists>sv d m t g v n i. fobj = PDict [(PStr ''services'', sv), (PStr ''disabled'', d),
        (PStr ''master'', m), (PStr ''timeout'', t), (PStr ''groups'', PDict g),
        (PStr ''volumes'', v), (PStr ''non_crit_interfaces'', PList n),
        (PStr ''internal_interfaces'', i)])"

text \<open>
  A volume of the snapshot reports ONLINE: whenever it is asked, \<^verbatim>\<open>pool.query\<close> for the
  volume's name answers with a record whose status is \<^verbatim>\<open>'ONLINE'\<close>.
\<close>

definition reports_online :: "env \<Rightarrow> pyval \<Rightarrow> bool" where
  "reports_online mw vol \<longleftrightarrow>
     (\<exists>name. getitem vol (PStr ''name'') = Inr name \<and>
        (\<forall>h. \<exists>z. call_sync mw h (pool_query name) = Inr z \<and>
                  getitem z (PStr ''status'') = Inr (PStr ''ONLINE'')))"

text \<open>The methods the dispatcher calls to learn the state of the cluster.\<close>

definition query_methods :: "string list" where
  "query_methods = [''pool.query'', ''datastore.query'', ''failover.config'', ''interface.query'',
     ''failover.internal_interfaces'', ''failover.remote_connected'', ''failover.call_remote'',
     ''failover.status_refresh'']"






section \<open>Concrete collaborators\<close>

text \<open>The inputs at which the theorems below are evaluated.\<close>

text \<open>
  A collaborator is given by its answers; the text of every exception is \<^verbatim>\<open>'error'\<close>,
  \<^verbatim>\<open>wait_sync()\<close> returns the job it is called on, and the timer does not expire during
  an export unless said otherwise.
\<close>

definition collaborator :: "(call \<Rightarrow> exn + pyval) \<Rightarrow> env" where
  "collaborator answer =
     \<lparr>call_sync = (\<lambda>h c. answer c), exn_str = (\<lambda>e. ''error''),
      wait_sync_value = (\<lambda>j. j), sigalrm = AlarmNotInExport\<rparr>"

definition snapshot_query :: call where
  "snapshot_query =
     Call ''pool.query''
       [PList [], PDict [(PStr ''select'', PList [PStr ''name'', PStr ''guid'', PStr ''status''])]] []"

definition snapshot_calls :: "call list" where
  "snapshot_calls =
     [snapshot_query, Call ''datastore.query'' [PStr ''services_services''] [],
      Call ''failover.config'' [] [], Call ''interface.query'' [] [],
      Call ''failover.internal_interfaces'' [] []]"

definition ha_enabled :: pyval where
  "ha_enabled = PDict [(PStr ''disabled'', PBool False), (PStr ''master'', PBool True),
                       (PStr ''timeout'', PInt 2)]"

definition volume :: "string \<Rightarrow> string \<Rightarrow> string \<Rightarrow> pyval" where
  "volume name guid status =
     PDict [(PStr ''name'', PStr name), (PStr ''guid'', PStr guid), (PStr ''status'', PStr status)]"

text \<open>The snapshot built when HA is enabled and no interface and no service is known.\<close>

definition snapshot_of :: "pyval \<Rightarrow> pyval" where
  "snapshot_of volumes =
     PDict [(PStr ''services'', PList []), (PStr ''disabled'', PBool False),
            (PStr ''master'', PBool True), (PStr ''timeout'', PInt 2),
            (PStr ''groups'', PDict []), (PStr ''volumes'', volumes),
            (PStr ''non_crit_interfaces'', PList []), (PStr ''internal_interfaces'', PNone)]"

text \<open>
  One pool, \<^verbatim>\<open>tank\<close>. The snapshot query lists it with status \<open>listed\<close>, the query by
  name answers with status \<open>live\<close>, and \<^verbatim>\<open>failover.fenced.start\<close> returns \<open>fence\<close>.
\<close>

definition one_pool :: "string \<Rightarrow> string \<Rightarrow> pyval \<Rightarrow> call \<Rightarrow> exn + pyval" where
  "one_pool listed live fence c =
     (if c = snapshot_query then Inr (PList [volume ''tank'' ''g1'' listed])
      else if meth c = ''pool.query'' then Inr (volume ''tank'' ''g1'' live)
      else if meth c = ''datastore.query'' then Inr (PList [])
      else if meth c = ''failover.config'' then Inr ha_enabled
      else if meth c = ''interface.query'' then Inr (PList [])
      else if meth c = ''failover.fenced.start'' then Inr fence
      else Inr PNone)"

text \<open>
  Two interfaces: \<^verbatim>\<open>eth1\<close> is not critical for failover, \<^verbatim>\<open>eth10\<close> is critical and in
  failover group 1.
\<close>

definition two_interfaces :: pyval where
  "two_interfaces =
     PList [PDict [(PStr ''id'', PStr ''eth1''), (PStr ''failover_critical'', PBool False)],
            PDict [(PStr ''id'', PStr ''eth10''), (PStr ''failover_critical'', PBool True),
                   (PStr ''failover_group'', PInt 1)]]"

definition eth1_eth10 :: "call \<Rightarrow> exn + pyval" where
  "eth1_eth10 c =
     (if meth c = ''failover.config'' then Inr ha_enabled
      else if meth c = ''interface.query'' then Inr two_interfaces
      else if meth c = ''pool.query'' then Inr (PList [])
      else if meth c = ''datastore.query'' then Inr (PList [])
      else Inr PNone)"

text \<open>
  Importing the pool with guid \<^verbatim>\<open>g1\<close> fails; every other import succeeds and no dataset
  fails to unlock.
\<close>

definition import_g1_fails :: "call \<Rightarrow> exn + pyval" where
  "import_g1_fails c =
     (if meth c = ''zfs.pool.import_pool'' \<and> take 1 (args c) = [PStr ''g1'']
      then Inl (CallError ''cannot import'')
      else if meth c = ''failover.unlock_zfs_datasets''
      then Inr (PJob PNone (PDict [(PStr ''failed'', PList [])]))
      else Inr PNone)"

text \<open>No interface of the group is left on the peer.\<close>

definition group_clear :: "call \<Rightarrow> exn + pyval" where
  "group_clear c =
     (if meth c = ''failover.vip.check_failover_group'' then Inr (PTuple [PList [], PList []])
      else Inr PNone)"

text \<open>The calls of \<^verbatim>\<open>vrrp_master\<close> after the imports when no service is known.\<close>

definition post_import_calls :: "call list" where
  "post_import_calls =
     [Call ''failover.status_refresh'' [] [],
      Call ''etc.generate'' [PStr ''rc''] [],
      Call ''etc.generate'' [PStr ''system_dataset''] [],
      Call ''etc.generate'' [PStr ''ssl''] [],
      Call ''service.restart'' [PStr ''http''] [],
      Call ''etc.generate'' [PStr ''cron''] [],
      Call ''disk.sync_all'' [] [],
      Call ''enclosure.sync_zpool'' [] [],
      Call ''service.restart'' [PStr ''collectd'', ha_propagate] [],
      Call ''service.restart'' [PStr ''syslogd'', ha_propagate] [],
      Call ''alert.block_failover_alerts'' [] [],
      Call ''alert.initialize'' [PBool False] [],
      Call ''kmip.config'' [] []]"

text \<open>The calls of \<^verbatim>\<open>vrrp_backup\<close> after the export when no service is known.\<close>

definition post_export_calls :: "call list" where
  "post_export_calls =
     [Call ''failover.status_refresh'' [] [],
      Call ''service.restart'' [PStr ''syslogd'', ha_propagate] [],
      Call ''etc.generate'' [PStr ''cron''] [],
      Call ''service.stop'' [PStr ''smartd'', ha_propagate] [],
      Call ''service.stop'' [PStr ''collectd'', ha_propagate] [],
      Call ''failover.call_remote'' [PStr ''failover.sync_keys_to_remote_node''] []]"

text \<open>A state in which the two sysrq files of the kernel exist.\<close>

definition with_sysrq :: state where
  "with_sysrq = init_state\<lparr>files := [(''/proc/sys/kernel/sysrq'', 0), (''/proc/sysrq-trigger'', 0)]\<rparr>"



section \<open>Frame lemmas\<close>

lemma preserves_ret: "preserves P (ret x)"
  by (simp add: preserves_def ret_def)

lemma preserves_raise: "preserves P (raise e)"
  by (simp add: preserves_def raise_def)

lemma preserves_lift: "preserves P (lift r)"
  by (simp add: preserves_def lift_def)

lemma preserves_andthen:
  assumes "preserves P m" and "\<And>x. preserves P (f x)"
  shows "preserves P (andthen m f)"
proof (unfold preserves_def, intro allI impI)
  fix s assume "P s"
  with assms(1) have m: "P (snd (m s))" by (simp add: preserves_def)
  show "P (snd (andthen m f s))"
  proof (cases "m s")
    case (Pair r s')
    with m have "P s'" by simp
    with assms(2) Pair show ?thesis
      by (cases r) (simp_all add: andthen_def preserves_def)
  qed
qed

lemma preserves_next_do:
  "preserves P m \<Longrightarrow> preserves P k \<Longrightarrow> preserves P (next_do m k)"
  by (simp add: next_do_def preserves_andthen)

lemma preserves_try_except:
  assumes "preserves P m" and "\<And>e. preserves P (h e)" and "\<And>x. preserves P (k x)"
  shows "preserves P (try_except m h k)"
proof (unfold preserves_def, intro allI impI)
  fix s assume "P s"
  with assms(1) have m: "P (snd (m s))" by (simp add: preserves_def)
  show "P (snd (try_except m h k s))"
  proof (cases "m s")
    case (Pair r s')
    with m have "P s'" by simp
    with assms(2,3) Pair show ?thesis
      by (cases r) (simp_all add: try_except_def preserves_def)
  qed
qed

lemma preserves_suppress: "preserves P m \<Longrightarrow> preserves P (suppress m)"
  by (auto simp: preserves_def suppress_def split: prod.splits sum.splits)

lemma preserves_for_each:
  "(\<And>x. preserves P (body x)) \<Longrightarrow> preserves P (for_each xs body)"
  by (induction xs) (simp_all add: preserves_ret preserves_next_do)

lemma preserves_if:
  "(c \<Longrightarrow> preserves P a) \<Longrightarrow> (\<not> c \<Longrightarrow> preserves P b) \<Longrightarrow> preserves P (if c then a else b)"
  by simp

lemma preserves_on_timeout:
  assumes "preserves P m" and "preserves P h"
  shows "preserves P (on_timeout m h)"
proof (unfold preserves_def, intro allI impI)
  fix s assume "P s"
  with assms(1) have m: "P (snd (m s))" by (simp add: preserves_def)
  show "P (snd (on_timeout m h s))"
  proof (cases "m s")
    case (Pair r s')
    with m have "P s'" by simp
    with assms(2) Pair show ?thesis
      by (cases r) (simp_all add: on_timeout_def preserves_def)
  qed
qed

lemma preserves_state_if:
  "preserves P a \<Longrightarrow> preserves P b \<Longrightarrow> preserves P (\<lambda>s. if c s then a s else b s)"
  by (simp add: preserves_def)

lemmas preserves_intros = preserves_ret preserves_raise preserves_lift preserves_andthen
  preserves_next_do preserves_try_except preserves_suppress preserves_for_each preserves_if
  preserves_state_if preserves_on_timeout

lemma preserves_run_call:
  "call_stable P X \<Longrightarrow> meth c \<in> X \<Longrightarrow> preserves P (run_call mw c)"
  by (auto simp: preserves_def call_stable_def run_call_def split: sum.splits)

lemma preserves_run_call_unit:
  "call_stable P X \<Longrightarrow> meth c \<in> X \<Longrightarrow> preserves P (run_call_unit mw c)"
  by (simp add: run_call_unit_def preserves_andthen preserves_run_call preserves_ret)


lemma preserves_files:
  assumes "fs_stable P"
  shows "preserves P (unlink p)" "preserves P (open_file p m)" "preserves P (write_file f x)"
    "preserves P (copy2 a b)" "preserves P (st_mtime p)" "preserves P (set_progress d)"
    "preserves P time_now"
  using assms
  by (auto simp: preserves_def fs_stable_def unlink_def open_file_def write_file_def copy2_def
      st_mtime_def set_progress_def time_now_def split: mode.splits pyval.splits option.splits)

lemma preserves_set_result:
  "result_stable P V \<Longrightarrow> v \<in> V \<Longrightarrow> preserves P (set_result v)"
  by (auto simp: preserves_def result_stable_def set_result_def)




lemma preserves_zpool_cache_bookkeeping:
  "fs_stable P \<Longrightarrow> preserves P zpool_cache_bookkeeping"
  unfolding zpool_cache_bookkeeping_def
  by (intro preserves_intros preserves_files)




lemma preserves_start_fenced:
  assumes c: "call_stable P UNIV" and r: "result_stable P V"
    and i: "ff \<or> ft \<or> PStr ''IGNORED'' \<in> V"
  shows "preserves P (start_fenced mw fobj ifname ff ft)"
proof (cases "ft \<or> ff")
  case True
  then show ?thesis
    unfolding start_fenced_def
    by (simp add: preserves_next_do preserves_run_call[OF c] preserves_run_call_unit[OF c])
next
  case False
  with i have v: "PStr ''IGNORED'' \<in> V" by auto
  from False show ?thesis
    unfolding start_fenced_def
    by (simp, intro preserves_intros preserves_run_call[OF c] preserves_run_call_unit[OF c]
        preserves_set_result[OF r v]) simp_all
qed








section \<open>Validation and the forced takeover\<close>

lemma validate_raises: "validate mw ifname ev s = (Inl TypeError, s)"
  by (simp add: validate_def get_jobs_filter_def andthen_def lift_def)

lemma run_validate_eq:
  "run_validate mw ifname ev s =
     (Inr (), s\<lparr>trace := trace s @ [Call ''failover.events.validate'' [PStr ifname, PStr ev] []]\<rparr>)"
  by (simp add: run_validate_def try_except_def validate_raises ret_def)

lemma dispatch_unbound:
  "dispatch mw fobj ifname ''forcetakeover'' None ft s =
     (Inl UnboundLocalError,
      s\<lparr>trace := trace s @ [Call ''failover.events.validate'' [PStr ifname, PStr ''forcetakeover''] []]\<rparr>)"
  by (simp add: dispatch_def next_do_def andthen_def run_validate_eq read_local_def lift_def)

text \<open>
  C1. The claim: with a MASTER transition job RUNNING, \<^verbatim>\<open>validate\<close> fails with
  \<^verbatim>\<open>IgnoreFailoverEvent\<close> for a MASTER or forced-takeover event, and likewise for BACKUP
  against a running BACKUP job. In the code \<^verbatim>\<open>validate\<close> never gets as far as asking for
  the running jobs: for every collaborator, interface, event and state it raises
  TypeError while building the filter of \<^verbatim>\<open>core.get_jobs\<close>, and makes no call.
\<close>

theorem validate_always_TypeError:
  "validate mw ifname ev s = (Inl TypeError, s)"
  by (simp add: validate_def get_jobs_filter_def andthen_def lift_def)

text \<open>
  C5. The claim: a forced takeover skips the soft checks and dispatches a MASTER
  transition with forced fencing. In the code the soft checks are skipped, and so is the
  only assignment to \<^verbatim>\<open>force_fenced\<close>: once the snapshot is built and \<^verbatim>\<open>validate\<close> has
  been called, evaluating the arguments of the \<^verbatim>\<open>vrrp_master\<close> call raises
  UnboundLocalError. No transition is dispatched and fencing is never touched.
\<close>

theorem forcetakeover_unbound_local:
  "event_inner mw ifname ''forcetakeover'' s =
     (case generate_failover_data mw s of
        (Inl e, s1) \<Rightarrow> (Inl e, s1)
      | (Inr fobj, s1) \<Rightarrow>
          (Inl UnboundLocalError,
           s1\<lparr>trace := trace s1 @
              [Call ''failover.events.validate'' [PStr ifname, PStr ''forcetakeover''] []]\<rparr>))"
  by (simp add: event_inner_def andthen_def dispatch_unbound split: prod.splits sum.splits)

section \<open>Frame lemmas for the dispatcher\<close>




lemma andthen_lift_Inr: "andthen (lift (Inr x)) k = k x"
  by (rule ext) (simp add: andthen_def lift_def)


lemma preserves_generate_failover_data:
  assumes c: "call_stable P X"
    and x: "{''pool.query'', ''datastore.query'', ''failover.config'', ''interface.query'',
             ''failover.internal_interfaces''} \<subseteq> X"
  shows "preserves P (generate_failover_data mw)"
  unfolding generate_failover_data_def
  by (intro preserves_intros preserves_run_call[OF c]) (use x in simp_all)

lemma preserves_needs_imported:
  assumes c: "call_stable P X" and x: "''pool.query'' \<in> X"
  shows "preserves P (needs_imported mw vols)"
proof (induction vols)
  case Nil
  show ?case by (simp add: preserves_ret)
next
  case (Cons vol vols)
  show ?case
    unfolding needs_imported.simps
    by (intro preserves_intros Cons.IH preserves_run_call[OF c]) (simp add: pool_query_def x)
qed

lemma preserves_soft_checks:
  assumes c: "call_stable P X"
    and x: "{''pool.query'', ''failover.remote_connected'', ''failover.call_remote''} \<subseteq> X"
  shows "preserves P (soft_checks mw fobj ifname)"
  unfolding soft_checks_def
  by (intro preserves_intros preserves_run_call[OF c] preserves_needs_imported[OF c])
     (use x in simp_all)



section \<open>The flag\<close>

lemma returns_in_raise: "returns_in Q (raise e)"
  by (simp add: returns_in_def raise_def)

lemma returns_in_ret: "(\<And>s. Q v s) \<Longrightarrow> returns_in Q (ret v)"
  by (simp add: returns_in_def ret_def)


lemma returns_in_andthen: "(\<And>x. returns_in Q (f x)) \<Longrightarrow> returns_in Q (andthen m f)"
  by (auto simp: returns_in_def andthen_def split: prod.splits sum.splits)

lemma returns_in_next_do: "returns_in Q k \<Longrightarrow> returns_in Q (next_do m k)"
  by (simp add: next_do_def returns_in_andthen)

lemma returns_in_if:
  "returns_in Q a \<Longrightarrow> returns_in Q b \<Longrightarrow> returns_in Q (if c then a else b)"
  by simp

lemmas returns_in_intros = returns_in_raise returns_in_andthen returns_in_next_do returns_in_if









lemma flag_kept_stable:
  "call_stable (\<lambda>x. failover_successful x = b) UNIV"
  "result_stable (\<lambda>x. failover_successful x = b) UNIV"
  "fs_stable (\<lambda>x. failover_successful x = b)"
  by (simp_all add: call_stable_def result_stable_def fs_stable_def)

lemma fos_keep:
  "(\<And>b. preserves (\<lambda>x. failover_successful x = b) m) \<Longrightarrow> flag_only_on_success m"
proof (unfold flag_only_on_success_def, intro allI impI)
  fix s r s' assume p: "\<And>b. preserves (\<lambda>x. failover_successful x = b) m" and m: "m s = (r, s')"
  from p[of "failover_successful s"] have "failover_successful (snd (m s)) = failover_successful s"
    by (simp add: preserves_def)
  with m show "failover_successful s' = failover_successful s
      \<or> (r = Inr (PBool True) \<and> failover_successful s')" by simp
qed
















section \<open>Ignored events\<close>






lemma take_length_le: "take (length t) xs = t \<Longrightarrow> length t \<le> length xs"
proof -
  assume "take (length t) xs = t"
  then have "length (take (length t) xs) = length t" by simp
  then show ?thesis by simp
qed

lemma only_calls_stable:
  "fs_stable (only_calls X t)" "call_stable (only_calls X t) (set X)"
  by (auto simp: fs_stable_def call_stable_def only_calls_def dest: take_length_le)

lemma only_calls_refl: "only_calls X (trace s) s"
  by (simp add: only_calls_def)

lemma query_subset:
  "{''pool.query'', ''datastore.query'', ''failover.config'', ''interface.query'',
    ''failover.internal_interfaces''} \<subseteq> set query_methods"
  "{''pool.query'', ''failover.remote_connected'', ''failover.call_remote''} \<subseteq> set query_methods"
  by (simp_all add: query_methods_def)



















section \<open>The MASTER transition on an empty snapshot\<close>

lemma suppress_ok: "fst (suppress m s) = Inr ()"
  by (cases "m s") (auto simp: suppress_def split: sum.splits)

lemma st_mtime_exists: "path_exists s p \<Longrightarrow> \<exists>t. st_mtime p s = (Inr t, s)"
  by (auto simp: path_exists_def st_mtime_def)

lemma next_do_ok:
  assumes "\<And>s. fst (m s) = Inr ()" and "\<And>s. fst (k s) = Inr ()"
  shows "fst (next_do m k s) = Inr ()"
proof (cases "m s")
  case (Pair r s')
  with assms(1)[of s] have "r = Inr ()" by simp
  with Pair assms(2)[of s'] show ?thesis by (simp add: next_do_def andthen_def)
qed

lemma saved_cache_ok:
  "fst ((if path_exists s zpool_cache_file_saved \<and> path_exists s zpool_cache_file
         then andthen (st_mtime zpool_cache_file) (\<lambda>zpool_cache_mtime.
              andthen (st_mtime zpool_cache_file_saved) (\<lambda>zpool_cache_saved_mtime.
                if zpool_cache_mtime > zpool_cache_saved_mtime
                then suppress (copy2 zpool_cache_file zpool_cache_file_saved)
                else ret ())) s
         else ret () s)) = Inr ()"
proof (cases "path_exists s zpool_cache_file_saved \<and> path_exists s zpool_cache_file")
  case True
  then obtain t1 t2 where "st_mtime zpool_cache_file s = (Inr t1, s)"
    and "st_mtime zpool_cache_file_saved s = (Inr t2, s)"
    using st_mtime_exists by blast
  with True show ?thesis by (simp add: andthen_def suppress_ok ret_def)
next
  case False
  show ?thesis by (simp only: False if_False ret_def fst_conv)
qed

lemma killcache_ok:
  "fst ((if path_exists s zpool_killcache
         then next_do (suppress (unlink zpool_cache_file))
                      (suppress (unlink zpool_cache_file_saved)) s
         else suppress (andthen (open_file zpool_killcache WriteMode) (\<lambda>f. ret ())) s)) = Inr ()"
  by (simp add: suppress_ok next_do_ok)

lemma bookkeeping_ok: "fst (zpool_cache_bookkeeping s) = Inr ()"
  unfolding zpool_cache_bookkeeping_def
  by (rule next_do_ok) (simp_all only: killcache_ok saved_cache_ok)

lemma next_do_andthen: "next_do m (andthen n k) = andthen (next_do m n) k"
  by (rule ext) (simp add: next_do_def andthen_def split: prod.splits sum.splits)

lemma andthen_eq: "m s = (Inr x, s') \<Longrightarrow> andthen m k s = k x s'"
  by (simp add: andthen_def)

lemma next_do_eq: "m s = (Inr (), s') \<Longrightarrow> next_do m k s = k s'"
  by (simp add: next_do_def andthen_def)

lemma andthen_ret: "andthen (ret x) k = k x"
  by (rule ext) (simp add: andthen_def ret_def)

lemma next_do_ret: "next_do (ret ()) k = k"
  by (simp add: next_do_def andthen_ret)

lemma next_do_set_progress:
  "next_do (set_progress d) k s = k (s\<lparr>progress := progress s @ [d]\<rparr>)"
  by (simp add: next_do_def andthen_def set_progress_def)

lemma next_do_set_result:
  "next_do (set_result v) k s = k (s\<lparr>results := results s @ [v]\<rparr>)"
  by (simp add: next_do_def andthen_def set_result_def)

lemma job_frame_stable:
  "fs_stable (\<lambda>x. trace x = t \<and> results x = r \<and> failover_successful x = b)"
  by (simp add: fs_stable_def)

lemma fencing_keeps_flag:
  assumes "next_do (set_progress d) (start_fenced mw fobj ifname ff ft) s = (r, s1)"
  shows "failover_successful s1 = failover_successful s"
proof -
  have "preserves (\<lambda>x. failover_successful x = failover_successful s)
          (next_do (set_progress d) (start_fenced mw fobj ifname ff ft))"
    by (intro preserves_next_do preserves_files[OF flag_kept_stable(3)]
        preserves_start_fenced[OF flag_kept_stable(1,2)]) simp
  then have "failover_successful
               (snd (next_do (set_progress d) (start_fenced mw fobj ifname ff ft) s))
             = failover_successful s"
    by (simp add: preserves_def)
  with assms show ?thesis by simp
qed

lemma vrrp_master_after_fencing:
  "vrrp_master mw fobj ifname ev ff ft =
     andthen (next_do (set_progress ''ELECTING'') (start_fenced mw fobj ifname ff ft))
       (\<lambda>fenced_error. if truthy fenced_error then return_flag else import_and_restart mw fobj)"
  by (simp add: vrrp_master_def next_do_andthen)

lemma import_nothing:
  assumes vols: "getitem fobj (PStr ''volumes'') = Inr (PList [])"
    and b: "zpool_cache_bookkeeping s1 = (Inr (), s2)"
  shows "import_and_restart mw fobj s1 =
          (Inr (PBool (failover_successful s2)),
           s2\<lparr>progress := progress s2 @ [''IMPORTING''],
              results := results s2 @ [PStr ''ERROR'']\<rparr>)"
  unfolding import_and_restart_def
  by (simp add: next_do_eq[of zpool_cache_bookkeeping, OF b] next_do_set_progress vols ebind_def
      andthen_lift_Inr andthen_ret log_failed_def next_do_ret next_do_set_result return_flag_def)

text \<open>
  C10. When the snapshot has no volumes and the fencing step of \<^verbatim>\<open>vrrp_master\<close> returned
  a code that counts as success, the job result is set to \<^verbatim>\<open>'ERROR'\<close> and the flag is
  returned unchanged; no call is made after fencing, so nothing was imported and no
  post-import step ran.
\<close>

theorem empty_snapshot_is_error:
  assumes vols: "getitem fobj (PStr ''volumes'') = Inr (PList [])"
    and fence: "next_do (set_progress ''ELECTING'') (start_fenced mw fobj ifname ff ft) s
                  = (Inr code, s1)"
    and ok: "\<not> truthy code"
  shows "\<exists>s'. vrrp_master mw fobj ifname ev ff ft s = (Inr (PBool (failover_successful s)), s')
           \<and> trace s' = trace s1
           \<and> results s' = results s1 @ [PStr ''ERROR'']
           \<and> failover_successful s' = failover_successful s"
proof -
  obtain s2 where b: "zpool_cache_bookkeeping s1 = (Inr (), s2)"
    using bookkeeping_ok[of s1] by (cases "zpool_cache_bookkeeping s1") simp
  have "preserves (\<lambda>x. trace x = trace s1 \<and> results x = results s1
                      \<and> failover_successful x = failover_successful s1) zpool_cache_bookkeeping"
    by (rule preserves_zpool_cache_bookkeeping[OF job_frame_stable])
  then have "trace (snd (zpool_cache_bookkeeping s1)) = trace s1
      \<and> results (snd (zpool_cache_bookkeeping s1)) = results s1
      \<and> failover_successful (snd (zpool_cache_bookkeeping s1)) = failover_successful s1"
    by (simp add: preserves_def)
  with b have f: "trace s2 = trace s1" "results s2 = results s1"
    "failover_successful s2 = failover_successful s1"
    by simp_all
  have "vrrp_master mw fobj ifname ev ff ft s = import_and_restart mw fobj s1"
    by (simp add: vrrp_master_after_fencing
        andthen_eq[of "next_do (set_progress ''ELECTING'') (start_fenced mw fobj ifname ff ft)", OF fence]
        ok)
  with import_nothing[OF vols b] f fencing_keeps_flag[OF fence] show ?thesis by simp
qed

section \<open>Pools that are already online\<close>

lemma generate_shape: "returns_in (\<lambda>v s. snapshot_shape v) (generate_failover_data mw)"
  unfolding generate_failover_data_def
  by (intro returns_in_intros returns_in_ret) (simp add: snapshot_shape_def)

lemma non_crit_matches_strings:
  "list_all is_str ids \<Longrightarrow> \<exists>xs. non_crit_matches ids ifname = Inr xs"
proof (induction ids)
  case Nil
  show ?case by simp
next
  case (Cons i ids)
  then obtain p xs where "i = PStr p" and "non_crit_matches ids ifname = Inr xs"
    by (cases i) auto
  then show ?case by (simp add: ebind_def)
qed

lemma needs_imported_online:
  "\<forall>vol \<in> set vols. reports_online mw vol \<Longrightarrow> fst (needs_imported mw vols s) = Inr False"
proof (induction vols arbitrary: s)
  case Nil
  show ?case by (simp add: ret_def)
next
  case (Cons vol vols)
  from Cons.prems obtain name z where n: "getitem vol (PStr ''name'') = Inr name"
    and c: "call_sync mw (trace s) (pool_query name) = Inr z"
    and st: "getitem z (PStr ''status'') = Inr (PStr ''ONLINE'')"
    by (auto simp: reports_online_def) metis
  from c have r: "run_call mw (pool_query name) s = (Inr z, s\<lparr>trace := trace s @ [pool_query name]\<rparr>)"
    by (simp add: run_call_def)
  from Cons.prems have "\<forall>vol \<in> set vols. reports_online mw vol" by simp
  from Cons.IH[OF this] show ?case
    by (simp add: n st andthen_lift_Inr andthen_eq[of "run_call mw (pool_query name)", OF r])
qed

lemma run_call_returns: "\<exists>v s'. run_call mw c s = (Inr v, s')"
  by (cases "call_sync mw (trace s) c") (simp_all add: run_call_def)

lemma andthen_assoc: "andthen (andthen m f) g = andthen m (\<lambda>x. andthen (f x) g)"
  by (rule ext) (simp add: andthen_def split: prod.splits sum.splits)

lemma soft_checks_online:
  assumes sh: "snapshot_shape fobj"
    and ids: "getitem fobj (PStr ''non_crit_interfaces'') = Inr (PList ids)" "list_all is_str ids"
    and vols: "getitem fobj (PStr ''volumes'') = Inr (PList vols)"
    and on: "\<forall>vol \<in> set vols. reports_online mw vol"
  shows "fst (soft_checks mw fobj ifname s) \<in> {Inr False, Inl IgnoreFailoverEvent}"
proof -
  from sh obtain d m where dm: "getitem fobj (PStr ''disabled'') = Inr d"
    "getitem fobj (PStr ''master'') = Inr m"
    by (auto simp: snapshot_shape_def)
  from non_crit_matches_strings[OF ids(2)] obtain xs where
    xs: "non_crit_matches ids ifname = Inr xs" by blast
  have ni: "fst (needs_imported mw vols s') \<in> {Inr False, Inl IgnoreFailoverEvent}" for s'
    using needs_imported_online[OF on] by simp
  obtain rc s1 where rc: "run_call mw (Call ''failover.remote_connected'' [] []) s = (Inr rc, s1)"
    using run_call_returns by blast
  obtain rs s2 where rs: "run_call mw (Call ''failover.call_remote'' [PStr ''failover.status''] []) s1
      = (Inr rs, s2)"
    using run_call_returns by blast
  show ?thesis
    unfolding soft_checks_def
    using ni
    by (simp add: dm ids(1) vols xs ebind_def andthen_lift_Inr andthen_ret raise_def andthen_assoc
        andthen_eq[of "run_call mw (Call ''failover.remote_connected'' [] [])", OF rc]
        andthen_eq[of "run_call mw (Call ''failover.call_remote'' [PStr ''failover.status''] [])", OF rs])
qed


lemma query_frame_stable:
  "call_stable (\<lambda>x. only_calls X t x \<and> results x = r \<and> failover_successful x = b) (set X)"
  using only_calls_stable(2)[of X t] by (simp add: call_stable_def)

text \<open>
  C6, as amended. For an event that is not a forced takeover, when the snapshot can be
  built, its non-critical interface ids are strings, and every volume of the snapshot
  reports ONLINE when \<^verbatim>\<open>pool.query\<close> is asked again for it by name, \<^verbatim>\<open>event\<close> returns
  \<^verbatim>\<open>None\<close> without an error; the only calls made are queries and the final status refresh
  (no fencing, no import, no restart, no transition), no job result is set and the flag
  is unchanged. The status recorded in the snapshot itself is not consulted.
\<close>

theorem pools_online_no_transition:
  assumes nf: "ev \<noteq> ''forcetakeover''"
    and gen: "generate_failover_data mw s = (Inr fobj, s1)"
    and ids: "getitem fobj (PStr ''non_crit_interfaces'') = Inr (PList ids)" "list_all is_str ids"
    and vols: "getitem fobj (PStr ''volumes'') = Inr (PList vols)"
    and on: "\<forall>vol \<in> set vols. reports_online mw vol"
  shows "\<exists>s'. event mw ifname ev s = (Inr PNone, s')
           \<and> only_calls query_methods (trace s) s'
           \<and> results s' = results s
           \<and> failover_successful s' = failover_successful s"
proof -
  let ?P = "\<lambda>x. only_calls query_methods (trace s) x \<and> results x = results s
                \<and> failover_successful x = failover_successful s"
  have P0: "?P s" by (simp add: only_calls_refl)
  from gen generate_shape[of mw] have sh: "snapshot_shape fobj"
    unfolding returns_in_def by blast
  have "preserves ?P (generate_failover_data mw)"
    by (rule preserves_generate_failover_data[OF query_frame_stable query_subset(1)])
  with P0 have "?P (snd (generate_failover_data mw s))" by (simp add: preserves_def)
  with gen have P1: "?P s1" by simp
  obtain r2 s2 where sc: "soft_checks mw fobj ifname s1 = (r2, s2)"
    by (cases "soft_checks mw fobj ifname s1")
  have "preserves ?P (soft_checks mw fobj ifname)"
    by (rule preserves_soft_checks[OF query_frame_stable query_subset(2)])
  with P1 have "?P (snd (soft_checks mw fobj ifname s1))" by (simp add: preserves_def)
  with sc have P2: "?P s2" by simp
  have "preserves ?P (run_call mw (Call ''failover.status_refresh'' [] []))"
    by (rule preserves_run_call[OF query_frame_stable]) (simp add: query_methods_def)
  with P2 have P3: "?P (snd (run_call mw (Call ''failover.status_refresh'' [] []) s2))"
    by (simp add: preserves_def)
  from soft_checks_online[OF sh ids vols on, of ifname s1] sc
  have r2: "r2 = Inr False \<or> r2 = Inl IgnoreFailoverEvent" by simp
  have ei: "event_inner mw ifname ev s =
          (case r2 of Inl e \<Rightarrow> (Inl e, s2) | Inr needs \<Rightarrow> (Inr PNone, s2))"
    using r2 nf
    by (auto simp: event_inner_def andthen_def gen sc ret_def)
  from r2 show ?thesis
  proof
    assume "r2 = Inr False"
    with ei P3 show ?thesis by (simp add: event_def)
  next
    assume "r2 = Inl IgnoreFailoverEvent"
    with ei P2 show ?thesis by (simp add: event_def)
  qed
qed

section \<open>The code at concrete inputs\<close>

lemmas comp_defs = andthen_def next_do_def ret_def raise_def lift_def ebind_def run_call_def
  run_call_unit_def try_except_def suppress_def set_progress_def set_result_def return_flag_def
  mark_successful_def finish_successful_def

lemmas file_defs = path_exists_def unlink_def open_file_def write_file_def copy2_def st_mtime_def
  zpool_killcache_def zpool_cache_file_def zpool_cache_file_saved_def watchdog_alert_file_def
  zpool_cache_bookkeeping_def

lemmas master_defs = vrrp_master_def start_fenced_def import_and_restart_def import_pool_def
  unlock_zfs_datasets_def wait_sync_def log_failed_def post_import_def restart_critical_def
  restart_remaining_def critical_services_def py_join_def

lemmas backup_defs = vrrp_backup_def write_watchdog_alert_def time_now_def export_step_def
  on_timeout_def run_call_alarm_def call_sync_alarm_def zpool_export_sig_alarm_def sleep5_def
  sysrq_reboot_def restart_ssh_def

lemmas event_defs = event_def event_inner_def generate_failover_data_def filter_list_def
  soft_checks_def pool_query_def dispatch_def run_validate_eq read_local_def run_job_def

lemma fence3_after_success:
  "vrrp_master (collaborator (one_pool ''OFFLINE'' ''OFFLINE'' (PInt 3)))
     (snapshot_of (PList [volume ''tank'' ''g1'' ''OFFLINE''])) ''eth0'' ''MASTER'' True False
     (init_state\<lparr>failover_successful := True\<rparr>)
   = (Inr (PBool True),
      init_state\<lparr>failover_successful := True,
                 trace := [Call ''failover.fenced.stop'' [] [],
                           Call ''failover.fenced.start'' [] [(''force'', PBool True)]],
                 progress := [''ELECTING'']\<rparr>)"
  by (simp add: vrrp_master_def start_fenced_def comp_defs collaborator_def one_pool_def
      init_state_def)

text \<open>
  C4. The claim: a fencing start code other than zero means no import, no restart and
  the terminal result ERROR. At code 3 the transition stops after the two fencing calls,
  but it never sets a job result, as the branch for failed imports does; it returns the
  flag, which is \<^verbatim>\<open>True\<close> once an earlier transition has succeeded and \<^verbatim>\<open>False\<close> before.
\<close>

theorem fencing_failure_sets_no_result:
  "vrrp_master (collaborator (one_pool ''OFFLINE'' ''OFFLINE'' (PInt 3)))
     (snapshot_of (PList [volume ''tank'' ''g1'' ''OFFLINE''])) ''eth0'' ''MASTER'' True False
     (init_state\<lparr>failover_successful := True\<rparr>)
   = (Inr (PBool True),
      init_state\<lparr>failover_successful := True,
                 trace := [Call ''failover.fenced.stop'' [] [],
                           Call ''failover.fenced.start'' [] [(''force'', PBool True)]],
                 progress := [''ELECTING'']\<rparr>)
   \<and>
   vrrp_master (collaborator (one_pool ''OFFLINE'' ''OFFLINE'' (PInt 3)))
     (snapshot_of (PList [volume ''tank'' ''g1'' ''OFFLINE''])) ''eth0'' ''MASTER'' True False
     init_state
   = (Inr (PBool False),
      init_state\<lparr>trace := [Call ''failover.fenced.stop'' [] [],
                           Call ''failover.fenced.start'' [] [(''force'', PBool True)]],
                 progress := [''ELECTING'']\<rparr>)
   \<and> results init_state = []"
  by (simp add: vrrp_master_def start_fenced_def comp_defs collaborator_def one_pool_def
      init_state_def)

text \<open>
  C3. The claim: when every import fails the result is ERROR and nothing after the
  imports runs; when only some fail the result is ERROR and the rest runs. Here the
  import of \<^verbatim>\<open>g1\<close> raises in the collaborator. With \<^verbatim>\<open>tank\<close> as the only volume (all
  imports fail) and with a second volume \<^verbatim>\<open>data\<close> (one of two fails) alike, the
  exception is dropped by \<^verbatim>\<open>run_call\<close> before the \<^verbatim>\<open>except\<close> clause of the loop can see
  it: the datasets of \<^verbatim>\<open>tank\<close> are unlocked, every post-import step runs, no result is
  set, the flag is set and \<^verbatim>\<open>True\<close> is returned.
\<close>

theorem import_failure_goes_unnoticed:
  "vrrp_master (collaborator import_g1_fails)
     (snapshot_of (PList [volume ''tank'' ''g1'' ''OFFLINE''])) ''eth0'' ''MASTER'' True False
     init_state
   = (Inr (PBool True),
      init_state\<lparr>trace := [Call ''failover.fenced.stop'' [] [],
                           Call ''failover.fenced.start'' [] [(''force'', PBool True)],
                           Call ''zfs.pool.import_pool''
                             [PStr ''g1'', PDict [(PStr ''altroot'', PStr ''/mnt''),
                                (PStr ''cachefile'', PStr ''/data/zfs/zpool.cache'')]] [],
                           Call ''failover.unlock_zfs_datasets'' [PStr ''tank''] []]
                          @ post_import_calls,
                 failover_successful := True,
                 progress := [''ELECTING'', ''IMPORTING''],
                 files := [(''/data/zfs/killcache'', 0)]\<rparr>)
   \<and>
   vrrp_master (collaborator import_g1_fails)
     (snapshot_of (PList [volume ''tank'' ''g1'' ''OFFLINE'', volume ''data'' ''g2'' ''OFFLINE'']))
     ''eth0'' ''MASTER'' True False init_state
   = (Inr (PBool True),
      init_state\<lparr>trace := [Call ''failover.fenced.stop'' [] [],
                           Call ''failover.fenced.start'' [] [(''force'', PBool True)],
                           Call ''zfs.pool.import_pool''
                             [PStr ''g1'', PDict [(PStr ''altroot'', PStr ''/mnt''),
                                (PStr ''cachefile'', PStr ''/data/zfs/zpool.cache'')]] [],
                           Call ''failover.unlock_zfs_datasets'' [PStr ''tank''] [],
                           Call ''zfs.pool.import_pool''
                             [PStr ''g2'', PDict [(PStr ''altroot'', PStr ''/mnt''),
                                (PStr ''cachefile'', PStr ''/data/zfs/zpool.cache'')]] [],
                           Call ''failover.unlock_zfs_datasets'' [PStr ''data''] []]
                          @ post_import_calls,
                 failover_successful := True,
                 progress := [''ELECTING'', ''IMPORTING''],
                 files := [(''/data/zfs/killcache'', 0)]\<rparr>)
   \<and> results init_state = []
   \<and> call_sync (collaborator import_g1_fails)
        [Call ''failover.fenced.stop'' [] [],
         Call ''failover.fenced.start'' [] [(''force'', PBool True)]]
        (Call ''zfs.pool.import_pool''
           [PStr ''g1'', PDict [(PStr ''altroot'', PStr ''/mnt''),
              (PStr ''cachefile'', PStr ''/data/zfs/zpool.cache'')]] [])
      = Inl (CallError ''cannot import'')"
  by (simp add: master_defs comp_defs file_defs collaborator_def import_g1_fails_def
      snapshot_of_def volume_def init_state_def post_import_calls_def ha_propagate_def)


text \<open>
  C2. The claim: the watchdog marker is removed exactly when the export finishes before
  the timer expires, and when the timer expires first the reboot trigger is invoked
  once and the removal is not reached. First input: the timer expires inside the export
  call of the only volume (\<open>alarms\<close> is 1). The exception of the handler is dropped by
  \<^verbatim>\<open>run_call\<close>; nothing is written to the sysrq files, the marker is removed and the
  transition ends successfully. Second input: the volume list is \<^verbatim>\<open>None\<close>, the loop raises,
  and the timer expires inside \<^verbatim>\<open>time.sleep(5)\<close>. The handler's exception reaches the
  reboot code, which opens \<^verbatim>\<open>/proc/sys/kernel/sysrq\<close> for reading and fails on the first
  write: nothing is written, the marker stays.
\<close>

theorem export_timeout_never_reboots:
  "vrrp_backup ((collaborator group_clear)\<lparr>sigalrm := AlarmInExportCall 0\<rparr>)
     (snapshot_of (PList [volume ''tank'' ''g1'' ''ONLINE''])) ''eth0'' ''BACKUP'' False with_sysrq
   = (Inr (PBool True),
      with_sysrq\<lparr>trace := [Call ''failover.vip.check_failover_group'' [PStr ''eth0'', PDict []] [],
                            Call ''failover.fenced.stop'' [] [],
                            Call ''service.restart'' [PStr ''keepalived''] [],
                            Call ''zfs.pool.export''
                              [PStr ''tank'', PDict [(PStr ''force'', PBool True)]] []]
                           @ post_export_calls,
                 failover_successful := True,
                 alarms := 1\<rparr>)
   \<and>
   vrrp_backup ((collaborator group_clear)\<lparr>sigalrm := AlarmInSleep\<rparr>)
     (snapshot_of PNone) ''eth0'' ''BACKUP'' False with_sysrq
   = (Inl UnsupportedOperation,
      with_sysrq\<lparr>trace := [Call ''failover.vip.check_failover_group'' [PStr ''eth0'', PDict []] [],
                            Call ''failover.fenced.stop'' [] [],
                            Call ''service.restart'' [PStr ''keepalived''] []],
                 files := (''/data/sentinels/.watchdog-alert'', 0) # files with_sysrq,
                 alarms := 1\<rparr>)
   \<and> written with_sysrq = []
   \<and> map_of (files with_sysrq) watchdog_alert_file = None"
  by (simp add: backup_defs comp_defs file_defs seq_index_def collaborator_def group_clear_def
      snapshot_of_def volume_def with_sysrq_def init_state_def post_export_calls_def
      ha_propagate_def)

lemma eth10_ignored:
  "event_inner (collaborator eth1_eth10) ''eth10'' ''MASTER'' init_state
     = (Inl IgnoreFailoverEvent, init_state\<lparr>trace := snapshot_calls\<rparr>)"
  by (simp add: event_defs comp_defs collaborator_def eth1_eth10_def two_interfaces_def
      ha_enabled_def init_state_def snapshot_calls_def snapshot_query_def)

text \<open>
  C7. The claim: an event is ignored by the non-critical check for interfaces of the
  non-critical set and only for those. With \<^verbatim>\<open>eth1\<close> the only non-critical interface and
  \<^verbatim>\<open>eth10\<close> critical, a MASTER event on \<^verbatim>\<open>eth10\<close> is ignored right after the snapshot is
  built: line 226 tests \<^verbatim>\<open>i in ifname\<close> on two strings, and \<^verbatim>\<open>'eth1'\<close> is a substring of
  \<^verbatim>\<open>'eth10'\<close>.
\<close>

theorem substring_match_ignores_critical_interface:
  "event_inner (collaborator eth1_eth10) ''eth10'' ''MASTER'' init_state
     = (Inl IgnoreFailoverEvent, init_state\<lparr>trace := snapshot_calls\<rparr>)
   \<and> ebind (filter_list two_interfaces False) interface_ids = Inr [PStr ''eth1'']
   \<and> ebind (filter_list two_interfaces True) interface_ids = Inr [PStr ''eth10'']
   \<and> in_str (PStr ''eth1'') ''eth10'' = Inr True"
  using eth10_ignored
  by (simp add: filter_list_def ebind_def two_interfaces_def)

lemma stale_snapshot:
  "generate_failover_data (collaborator (one_pool ''ONLINE'' ''OFFLINE'' (PInt 1))) init_state
     = (Inr (snapshot_of (PList [volume ''tank'' ''g1'' ''ONLINE''])),
        init_state\<lparr>trace := snapshot_calls\<rparr>)"
  by (simp add: event_defs comp_defs collaborator_def one_pool_def ha_enabled_def init_state_def
      snapshot_calls_def snapshot_query_def snapshot_of_def)

text \<open>
  C6, as stated, fails: the snapshot lists the only volume as ONLINE, the query by name
  made at line 246 answers OFFLINE, and the MASTER transition is dispatched and starts
  fencing.
\<close>

theorem stale_snapshot_counterexample:
  "generate_failover_data (collaborator (one_pool ''ONLINE'' ''OFFLINE'' (PInt 1))) init_state
     = (Inr (snapshot_of (PList [volume ''tank'' ''g1'' ''ONLINE''])),
        init_state\<lparr>trace := snapshot_calls\<rparr>)
   \<and> event (collaborator (one_pool ''ONLINE'' ''OFFLINE'' (PInt 1))) ''eth0'' ''MASTER'' init_state
     = (Inr PNone,
        init_state\<lparr>trace := snapshot_calls @
            [Call ''failover.remote_connected'' [] [],
             pool_query (PStr ''tank''),
             Call ''failover.events.validate'' [PStr ''eth0'', PStr ''MASTER''] [],
             Call ''failover.events.vrrp_master''
               [snapshot_of (PList [volume ''tank'' ''g1'' ''ONLINE'']), PStr ''eth0'',
                PStr ''MASTER'', PBool True, PBool False] [],
             Call ''failover.fenced.stop'' [] [],
             Call ''failover.fenced.start'' [] [(''force'', PBool True)],
             Call ''failover.status_refresh'' [] []],
           progress := [''ELECTING'']\<rparr>)"
  by (simp add: event_defs master_defs comp_defs collaborator_def one_pool_def ha_enabled_def
      init_state_def snapshot_calls_def snapshot_query_def snapshot_of_def volume_def)



lemma online_snapshot:
  "generate_failover_data (collaborator (one_pool ''ONLINE'' ''ONLINE'' PNone)) init_state
     = (Inr (snapshot_of (PList [volume ''tank'' ''g1'' ''ONLINE''])),
        init_state\<lparr>trace := snapshot_calls\<rparr>)"
  by (simp add: event_defs comp_defs collaborator_def one_pool_def ha_enabled_def init_state_def
      snapshot_calls_def snapshot_query_def snapshot_of_def)

lemma tank_reports_online:
  "reports_online (collaborator (one_pool ''ONLINE'' ''ONLINE'' PNone)) (volume ''tank'' ''g1'' ''ONLINE'')"
  by (simp add: reports_online_def volume_def collaborator_def one_pool_def pool_query_def
      snapshot_query_def)

text \<open>C6, as amended, at a collaborator whose only pool is ONLINE in both queries.\<close>

theorem pools_online_no_transition_witness:
  "''MASTER'' \<noteq> ''forcetakeover''
   \<and> generate_failover_data (collaborator (one_pool ''ONLINE'' ''ONLINE'' PNone)) init_state
       = (Inr (snapshot_of (PList [volume ''tank'' ''g1'' ''ONLINE''])),
          init_state\<lparr>trace := snapshot_calls\<rparr>)
   \<and> reports_online (collaborator (one_pool ''ONLINE'' ''ONLINE'' PNone))
         (volume ''tank'' ''g1'' ''ONLINE'')
   \<and> (\<exists>s'. event (collaborator (one_pool ''ONLINE'' ''ONLINE'' PNone)) ''eth0'' ''MASTER'' init_state
               = (Inr PNone, s')
            \<and> only_calls query_methods (trace init_state) s'
            \<and> results s' = results init_state
            \<and> failover_successful s' = failover_successful init_state)"
proof -
  have "getitem (snapshot_of (PList [volume ''tank'' ''g1'' ''ONLINE'']))
          (PStr ''non_crit_interfaces'') = Inr (PList [])"
    and "getitem (snapshot_of (PList [volume ''tank'' ''g1'' ''ONLINE'']))
          (PStr ''volumes'') = Inr (PList [volume ''tank'' ''g1'' ''ONLINE''])"
    by (simp_all add: snapshot_of_def)
  from pools_online_no_transition[OF _ online_snapshot this(1) _ this(2), of "''MASTER''" "''eth0''"]
    online_snapshot tank_reports_online
  show ?thesis by simp
qed






lemma quiet_fencing:
  "next_do (set_progress ''ELECTING'')
     (start_fenced (collaborator (\<lambda>c. Inr PNone)) (snapshot_of (PList [])) ''eth0'' True False)
     init_state
   = (Inr PNone,
      init_state\<lparr>trace := [Call ''failover.fenced.stop'' [] [],
                           Call ''failover.fenced.start'' [] [(''force'', PBool True)]],
                 progress := [''ELECTING'']\<rparr>)"
  by (simp add: start_fenced_def comp_defs collaborator_def init_state_def)

text \<open>C10 at a collaborator that answers every call with \<^verbatim>\<open>None\<close>.\<close>

theorem empty_snapshot_is_error_witness:
  "getitem (snapshot_of (PList [])) (PStr ''volumes'') = Inr (PList [])
   \<and> next_do (set_progress ''ELECTING'')
       (start_fenced (collaborator (\<lambda>c. Inr PNone)) (snapshot_of (PList [])) ''eth0'' True False)
       init_state
     = (Inr PNone,
        init_state\<lparr>trace := [Call ''failover.fenced.stop'' [] [],
                             Call ''failover.fenced.start'' [] [(''force'', PBool True)]],
                   progress := [''ELECTING'']\<rparr>)
   \<and> \<not> truthy PNone
   \<and> (\<exists>s'. vrrp_master (collaborator (\<lambda>c. Inr PNone)) (snapshot_of (PList [])) ''eth0'' ''MASTER''
               True False init_state = (Inr (PBool False), s')
            \<and> trace s' = [Call ''failover.fenced.stop'' [] [],
                           Call ''failover.fenced.start'' [] [(''force'', PBool True)]]
            \<and> results s' = [PStr ''ERROR''])"
proof -
  have v: "getitem (snapshot_of (PList [])) (PStr ''volumes'') = Inr (PList [])"
    by (simp add: snapshot_of_def)
  from empty_snapshot_is_error[OF v quiet_fencing, of "''MASTER''"] v quiet_fencing
  show ?thesis by (auto simp: init_state_def)
qed

end
